theory Spec2Isabelle
  imports Main "HOL-Library.Word"
begin

section \<open>The engine capability used by sqld.cc\<close>

text \<open>
  sqld.cc is a thin layer over the C API of the SQL engine. The engine is not part of the
  repository, so it is a parameter of the model: a record of functions, one per API call
  that sqld.cc makes. The type \<open>'d\<close> is the state behind a connection handle
  (\<open>Conn::m_db\<close>), \<open>'h\<close> the state behind a compiled statement handle (\<open>Req::m_stmt\<close>) and
  \<open>'r\<close> the type of a \<open>double\<close>, which the layer only passes through.

  Result codes: sqld.cc tests for exactly three of them, every other code is carried by
  \<open>SQLITE_FAIL\<close>.
\<close>

datatype rc = SQLITE_OK | SQLITE_ROW | SQLITE_DONE | SQLITE_FAIL int

text \<open>
  \<^item> \<open>sqlite3_prepare_v2 db head nByte\<close> gives the result code, the statement handle
    written through \<open>&m_stmt\<close> (none for a null pointer), the distance \<open>tail - head\<close>
    and the new connection state;
  \<^item> \<open>sqlite3_step h db\<close> gives the result code, the stepped statement and the new
    connection state;
  \<^item> \<open>sqlite3_finalize h db\<close> releases a statement;
  \<^item> the column functions read the current row of a statement.
    \<open>sqlite3_column_text\<close> gives a pointer to the text, which is the null pointer when
    the value of the column is SQL NULL: none here.
\<close>

record ('d, 'h, 'r) engine =
  sqlite3_prepare_v2 :: "'d \<Rightarrow> string \<Rightarrow> nat \<Rightarrow> rc \<times> 'h option \<times> nat \<times> 'd"
  sqlite3_step :: "'h \<Rightarrow> 'd \<Rightarrow> rc \<times> 'h \<times> 'd"
  sqlite3_finalize :: "'h \<Rightarrow> 'd \<Rightarrow> 'd"
  sqlite3_column_count :: "'h \<Rightarrow> int"
  sqlite3_column_name :: "'h \<Rightarrow> int \<Rightarrow> string"
  sqlite3_column_text :: "'h \<Rightarrow> int \<Rightarrow> string option"
  sqlite3_column_int :: "'h \<Rightarrow> int \<Rightarrow> 32 word"
  sqlite3_column_int64 :: "'h \<Rightarrow> int \<Rightarrow> 64 word"
  sqlite3_column_double :: "'h \<Rightarrow> int \<Rightarrow> 'r"
  sqlite3_column_bytes :: "'h \<Rightarrow> int \<Rightarrow> int"
  sqlite3_column_blob :: "'h \<Rightarrow> int \<Rightarrow> string"

section \<open>Errors\<close>

text \<open>
  Every failure of sqld.cc is a thrown \<open>std::runtime_error\<close>. The ones raised by a
  precondition check carry a fixed message (\<open>UsageError\<close>); the ones raised after an
  engine call carry \<open>sqlite3_errstr(r)\<close> of the result code (\<open>EngineError\<close>).
  A throw leaves the object as it is at that point, so every operation returns the
  state next to its outcome, also when the outcome is an error.

  \<open>Undefined\<close> stands for the one place where sqld.cc hands a null pointer to
  \<open>std::string\<close>: the language gives the program no behaviour there (the usual library
  throws \<open>std::logic_error\<close> from the constructor and reads through the null pointer in
  \<open>assign\<close>). It is neither of the two errors above and not a returned value.
\<close>

datatype error = UsageError string | EngineError rc | Undefined

section \<open>Req: the statement stream\<close>

text \<open>
  The fields of \<open>class Req\<close>. \<open>m_conn\<close> is a reference to the connection: its state is
  passed to and returned by every operation. \<open>m_sql\<close> is the content of the
  \<open>ostringstream\<close>, \<open>m_pos\<close> a \<open>size_type\<close> offset into it (a natural number here: the
  offset stays near the buffer length), \<open>m_cols\<close> an \<open>int\<close>.
\<close>

record 'h req =
  m_stmt :: "'h option"
  m_sql :: string
  m_pos :: nat
  m_cols :: int

text \<open>\<open>Req::Req\<close>\<close>

definition Req_init :: "'h req" where
  "Req_init = \<lparr>m_stmt = None, m_sql = [], m_pos = 0, m_cols = 0\<rparr>"

text \<open>\<open>sql() << txt\<close>: the stream only grows at its end.\<close>

definition sql_append :: "'h req \<Rightarrow> string \<Rightarrow> 'h req" where
  "sql_append s txt = s\<lparr>m_sql := m_sql s @ txt\<rparr>"

text \<open>\<open>Req::finalize\<close>\<close>

definition finalize :: "('d, 'h, 'r) engine \<Rightarrow> 'h req \<Rightarrow> 'd \<Rightarrow> 'h req \<times> 'd" where
  "finalize eng s db =
     (case m_stmt s of
        None \<Rightarrow> (s, db)
      | Some h \<Rightarrow> (s\<lparr>m_stmt := None\<rparr>, sqlite3_finalize eng h db))"

text \<open>\<open>Req::~Req\<close>: the connection state once the stream is gone.\<close>

definition Req_destroy :: "('d, 'h, 'r) engine \<Rightarrow> 'h req \<Rightarrow> 'd \<Rightarrow> 'd" where
  "Req_destroy eng s db = snd (finalize eng s db)"

text \<open>\<open>Req::clear\<close>\<close>

definition clear :: "('d, 'h, 'r) engine \<Rightarrow> 'h req \<Rightarrow> 'd \<Rightarrow> 'h req \<times> 'd" where
  "clear eng s db =
     (case finalize eng s db of
        (s1, db1) \<Rightarrow> (s1\<lparr>m_sql := [], m_pos := 0, m_cols := 0\<rparr>, db1))"

text \<open>\<open>Req::reset\<close>\<close>

definition reset :: "('d, 'h, 'r) engine \<Rightarrow> 'h req \<Rightarrow> 'd \<Rightarrow> 'h req \<times> 'd" where
  "reset eng s db =
     (case finalize eng s db of
        (s1, db1) \<Rightarrow> (s1\<lparr>m_pos := 0, m_cols := 0\<rparr>, db1))"

text \<open>
  \<open>Req::prepare\<close>. The engine is given the buffer from \<open>m_pos\<close> on and the byte count
  \<open>size() + 1\<close>; it writes \<open>m_stmt\<close> whatever its result code is; the offset moves only
  when the result code is \<open>SQLITE_OK\<close>.
\<close>

definition prepare ::
  "('d, 'h, 'r) engine \<Rightarrow> 'h req \<Rightarrow> 'd \<Rightarrow> (error + unit) \<times> 'h req \<times> 'd" where
  "prepare eng s db =
     (case finalize eng s db of
        (s1, db1) \<Rightarrow>
          if m_pos s1 \<ge> length (m_sql s1) then (Inr (), s1, db1)
          else
            (case sqlite3_prepare_v2 eng db1 (drop (m_pos s1) (m_sql s1)) (length (m_sql s1) + 1) of
               (r, h, n, db2) \<Rightarrow>
                 if r \<noteq> SQLITE_OK then (Inl (EngineError r), s1\<lparr>m_stmt := h\<rparr>, db2)
                 else (Inr (), s1\<lparr>m_stmt := h, m_pos := m_pos s1 + n\<rparr>, db2)))"

text \<open>
  The loop of \<open>Req::exec_select\<close>. Nothing bounds the number of statements the engine
  finds in the buffer, so the loop is a partial function: \<open>None\<close> is a loop that never
  ends.
\<close>

partial_function (option) exec_select_loop ::
  "('d, 'h, 'r) engine \<Rightarrow> 'h req \<Rightarrow> 'd \<Rightarrow> ((error + int) \<times> 'h req \<times> 'd) option" where
  "exec_select_loop eng s db =
     (case prepare eng s db of
        (Inl e, s1, db1) \<Rightarrow> Some (Inl e, s1, db1)
      | (Inr u, s1, db1) \<Rightarrow>
          (case m_stmt s1 of
             None \<Rightarrow> Some (Inr 0, s1, db1)
           | Some h \<Rightarrow>
               (case sqlite3_step eng h db1 of
                  (r, h', db2) \<Rightarrow>
                    if r = SQLITE_DONE then exec_select_loop eng (s1\<lparr>m_stmt := Some h'\<rparr>) db2
                    else if r \<noteq> SQLITE_ROW then
                      Some (Inl (EngineError r), s1\<lparr>m_stmt := Some h'\<rparr>, db2)
                    else
                      Some (Inr (sqlite3_column_count eng h'),
                            s1\<lparr>m_stmt := Some h', m_cols := sqlite3_column_count eng h'\<rparr>,
                            db2))))"

text \<open>\<open>Req::exec_select\<close>\<close>

definition exec_select ::
  "('d, 'h, 'r) engine \<Rightarrow> 'h req \<Rightarrow> 'd \<Rightarrow> ((error + int) \<times> 'h req \<times> 'd) option" where
  "exec_select eng s db =
     (if m_cols s \<noteq> 0
      then Some (Inl (UsageError ''exec_select() called with current row data''), s, db)
      else exec_select_loop eng s db)"

text \<open>\<open>Req::next_row\<close>\<close>

definition next_row ::
  "('d, 'h, 'r) engine \<Rightarrow> 'h req \<Rightarrow> 'd \<Rightarrow> (error + int) \<times> 'h req \<times> 'd" where
  "next_row eng s db =
     (case m_stmt s of
        None \<Rightarrow> (Inl (UsageError ''next_row() called with invalid statement''), s, db)
      | Some h \<Rightarrow>
          if m_cols s = 0
          then (Inl (UsageError ''next_row() called without current row data''), s, db)
          else
            (case sqlite3_step eng h db of
               (r, h', db1) \<Rightarrow>
                 if r = SQLITE_DONE then (Inr 0, s\<lparr>m_stmt := Some h', m_cols := 0\<rparr>, db1)
                 else if r \<noteq> SQLITE_ROW then (Inl (EngineError r), s\<lparr>m_stmt := Some h'\<rparr>, db1)
                 else (Inr (sqlite3_column_count eng h'), s\<lparr>m_stmt := Some h'\<rparr>, db1)))"

text \<open>The inner loop of \<open>Req::exec\<close>: \<open>while (next_row()) {}\<close>.\<close>

partial_function (option) next_row_loop ::
  "('d, 'h, 'r) engine \<Rightarrow> 'h req \<Rightarrow> 'd \<Rightarrow> ((error + unit) \<times> 'h req \<times> 'd) option" where
  "next_row_loop eng s db =
     (case next_row eng s db of
        (Inl e, s1, db1) \<Rightarrow> Some (Inl e, s1, db1)
      | (Inr r, s1, db1) \<Rightarrow>
          if r \<noteq> 0 then next_row_loop eng s1 db1 else Some (Inr (), s1, db1))"

text \<open>The outer loop of \<open>Req::exec\<close>.\<close>

partial_function (option) exec_loop ::
  "('d, 'h, 'r) engine \<Rightarrow> 'h req \<Rightarrow> 'd \<Rightarrow> ((error + unit) \<times> 'h req \<times> 'd) option" where
  "exec_loop eng s db =
     (case exec_select eng s db of
        None \<Rightarrow> None
      | Some (Inl e, s1, db1) \<Rightarrow> Some (Inl e, s1, db1)
      | Some (Inr r, s1, db1) \<Rightarrow>
          if r = 0 then Some (Inr (), s1, db1)
          else
            (case next_row_loop eng s1 db1 of
               None \<Rightarrow> None
             | Some (Inl e, s2, db2) \<Rightarrow> Some (Inl e, s2, db2)
             | Some (Inr u, s2, db2) \<Rightarrow> exec_loop eng s2 db2))"

text \<open>\<open>Req::exec\<close>\<close>

definition exec ::
  "('d, 'h, 'r) engine \<Rightarrow> 'h req \<Rightarrow> 'd \<Rightarrow> ((error + unit) \<times> 'h req \<times> 'd) option" where
  "exec eng s db =
     (if m_cols s \<noteq> 0
      then Some (Inl (UsageError ''exec() called with current row data''), s, db)
      else exec_loop eng s db)"

section \<open>Column accessors\<close>

text \<open>
  The three checks that open every column accessor of sqld.cc, in the source's order.
  The accessors read the current row and change nothing.
\<close>

definition col_check :: "'h req \<Rightarrow> int \<Rightarrow> error + 'h" where
  "col_check s col =
     (case m_stmt s of
        None \<Rightarrow> Inl (UsageError ''column operation called with invalid statement'')
      | Some h \<Rightarrow>
          if m_cols s = 0
          then Inl (UsageError ''column operation called when row not available'')
          else if col < 0 \<or> col \<ge> m_cols s
          then Inl (UsageError ''column operation called with invalid column number'')
          else Inr h)"

text \<open>\<open>std::string Req::col_name(int)\<close>\<close>

definition col_name :: "('d, 'h, 'r) engine \<Rightarrow> 'h req \<Rightarrow> int \<Rightarrow> error + string" where
  "col_name eng s col =
     (case col_check s col of Inl e \<Rightarrow> Inl e | Inr h \<Rightarrow> Inr (sqlite3_column_name eng h col))"

text \<open>
  \<open>void Req::col_name(int, std::string&)\<close>: the result is the new content of the string
  passed by reference.
\<close>

definition col_name_to :: "('d, 'h, 'r) engine \<Rightarrow> 'h req \<Rightarrow> int \<Rightarrow> string \<Rightarrow> error + string" where
  "col_name_to eng s col str =
     (case col_check s col of Inl e \<Rightarrow> Inl e | Inr h \<Rightarrow> Inr (sqlite3_column_name eng h col))"

text \<open>
  \<open>std::string Req::col_text(int)\<close>: the pointer from the engine is cast and returned as
  a \<open>std::string\<close>, with no test for the null pointer.
\<close>

definition col_text :: "('d, 'h, 'r) engine \<Rightarrow> 'h req \<Rightarrow> int \<Rightarrow> error + string" where
  "col_text eng s col =
     (case col_check s col of
        Inl e \<Rightarrow> Inl e
      | Inr h \<Rightarrow>
          (case sqlite3_column_text eng h col of
             None \<Rightarrow> Inl Undefined
           | Some txt \<Rightarrow> Inr txt))"

text \<open>
  \<open>void Req::col_text(int, std::string&)\<close>: the pointer from the engine is cast and given
  to \<open>str.assign\<close>, with no test for the null pointer.
\<close>

definition col_text_to :: "('d, 'h, 'r) engine \<Rightarrow> 'h req \<Rightarrow> int \<Rightarrow> string \<Rightarrow> error + string" where
  "col_text_to eng s col str =
     (case col_check s col of
        Inl e \<Rightarrow> Inl e
      | Inr h \<Rightarrow>
          (case sqlite3_column_text eng h col of
             None \<Rightarrow> Inl Undefined
           | Some txt \<Rightarrow> Inr txt))"

text \<open>\<open>Req::col_int\<close>\<close>

definition col_int :: "('d, 'h, 'r) engine \<Rightarrow> 'h req \<Rightarrow> int \<Rightarrow> error + 32 word" where
  "col_int eng s col =
     (case col_check s col of Inl e \<Rightarrow> Inl e | Inr h \<Rightarrow> Inr (sqlite3_column_int eng h col))"

text \<open>\<open>Req::col_int64\<close>\<close>

definition col_int64 :: "('d, 'h, 'r) engine \<Rightarrow> 'h req \<Rightarrow> int \<Rightarrow> error + 64 word" where
  "col_int64 eng s col =
     (case col_check s col of Inl e \<Rightarrow> Inl e | Inr h \<Rightarrow> Inr (sqlite3_column_int64 eng h col))"

text \<open>\<open>Req::col_real\<close>\<close>

definition col_real :: "('d, 'h, 'r) engine \<Rightarrow> 'h req \<Rightarrow> int \<Rightarrow> error + 'r" where
  "col_real eng s col =
     (case col_check s col of Inl e \<Rightarrow> Inl e | Inr h \<Rightarrow> Inr (sqlite3_column_double eng h col))"

text \<open>
  \<open>Req::col_blob\<close>: the vector passed by reference receives the first
  \<open>sqlite3_column_bytes\<close> bytes found at \<open>sqlite3_column_blob\<close>.
\<close>

definition col_blob :: "('d, 'h, 'r) engine \<Rightarrow> 'h req \<Rightarrow> int \<Rightarrow> string \<Rightarrow> error + string" where
  "col_blob eng s col str =
     (case col_check s col of
        Inl e \<Rightarrow> Inl e
      | Inr h \<Rightarrow> Inr (take (nat (sqlite3_column_bytes eng h col)) (sqlite3_column_blob eng h col)))"

section \<open>Trans: transaction boundaries\<close>

text \<open>
  \<open>class Trans\<close> holds a reference to the connection and the flag \<open>m_active\<close>. Each of
  its operations builds a local \<open>Req\<close>, streams one statement into it, runs \<open>exec\<close> and
  lets the \<open>Req\<close> go out of scope, on the normal path and when \<open>exec\<close> throws.
\<close>

record trans =
  m_active :: bool

text \<open>\<open>Trans::Trans\<close>\<close>

definition Trans_init :: trans where
  "Trans_init = \<lparr>m_active = False\<rparr>"

text \<open>\<open>Req r(m_conn); r.sql() << txt; r.exec();\<close> and the end of \<open>r\<close>'s scope.\<close>

definition exec_private ::
  "('d, 'h, 'r) engine \<Rightarrow> string \<Rightarrow> 'd \<Rightarrow> ((error + unit) \<times> 'd) option" where
  "exec_private eng txt db =
     (case exec eng (sql_append Req_init txt) db of
        None \<Rightarrow> None
      | Some (res, s1, db1) \<Rightarrow> Some (res, Req_destroy eng s1 db1))"

text \<open>\<open>Trans::begin\<close>\<close>

definition Trans_begin ::
  "('d, 'h, 'r) engine \<Rightarrow> trans \<Rightarrow> 'd \<Rightarrow> ((error + unit) \<times> trans \<times> 'd) option" where
  "Trans_begin eng t db =
     (if m_active t
      then Some (Inl (UsageError ''begin() transaction when already active''), t, db)
      else
        (case exec_private eng ''BEGIN;'' db of
           None \<Rightarrow> None
         | Some (Inl e, db1) \<Rightarrow> Some (Inl e, t, db1)
         | Some (Inr u, db1) \<Rightarrow> Some (Inr (), t\<lparr>m_active := True\<rparr>, db1)))"

text \<open>\<open>Trans::commit\<close>\<close>

definition Trans_commit ::
  "('d, 'h, 'r) engine \<Rightarrow> trans \<Rightarrow> 'd \<Rightarrow> ((error + unit) \<times> trans \<times> 'd) option" where
  "Trans_commit eng t db =
     (if \<not> m_active t
      then Some (Inl (UsageError ''commit() transaction when not active''), t, db)
      else
        (case exec_private eng ''COMMIT;'' db of
           None \<Rightarrow> None
         | Some (Inl e, db1) \<Rightarrow> Some (Inl e, t, db1)
         | Some (Inr u, db1) \<Rightarrow> Some (Inr (), t\<lparr>m_active := False\<rparr>, db1)))"

text \<open>\<open>Trans::abort\<close>\<close>

definition Trans_abort ::
  "('d, 'h, 'r) engine \<Rightarrow> trans \<Rightarrow> 'd \<Rightarrow> ((error + unit) \<times> trans \<times> 'd) option" where
  "Trans_abort eng t db =
     (if \<not> m_active t
      then Some (Inl (UsageError ''abort() transaction when not active''), t, db)
      else
        (case exec_private eng ''ROLLBACK;'' db of
           None \<Rightarrow> None
         | Some (Inl e, db1) \<Rightarrow> Some (Inl e, t, db1)
         | Some (Inr u, db1) \<Rightarrow> Some (Inr (), t\<lparr>m_active := False\<rparr>, db1)))"


text \<open>The loops are run on concrete inputs through their unfolding equations.\<close>

declare exec_select_loop.simps [code]
declare next_row_loop.simps [code]
declare exec_loop.simps [code]

section \<open>Reachable stream states\<close>

text \<open>
  The states a \<open>Req\<close> can be in: it starts as its constructor leaves it, and every public
  operation that changes it and returns or throws leaves another such state. The
  connection may be used by others in between, so each operation meets any connection
  state.
\<close>

inductive reachable :: "('d, 'h, 'r) engine \<Rightarrow> 'h req \<Rightarrow> bool" for eng :: "('d, 'h, 'r) engine" where
  r_init: "reachable eng Req_init"
| r_sql: "reachable eng s \<Longrightarrow> reachable eng (sql_append s txt)"
| r_clear: "reachable eng s \<Longrightarrow> clear eng s db = (s', db') \<Longrightarrow> reachable eng s'"
| r_reset: "reachable eng s \<Longrightarrow> reset eng s db = (s', db') \<Longrightarrow> reachable eng s'"
| r_exec_select:
    "reachable eng s \<Longrightarrow> exec_select eng s db = Some (res, s', db') \<Longrightarrow> reachable eng s'"
| r_next_row: "reachable eng s \<Longrightarrow> next_row eng s db = (rn, s', db') \<Longrightarrow> reachable eng s'"
| r_exec: "reachable eng s \<Longrightarrow> exec eng s db = Some (rx, s', db') \<Longrightarrow> reachable eng s'"

section \<open>The history of a Trans\<close>

text \<open>
  A caller drives a \<open>Trans\<close> through a sequence of its three operations and may go on
  after one of them has thrown. The run keeps, next to the object and the connection, the
  statements that the operations have executed without error, oldest first.
\<close>

datatype trans_op = Begin | Commit | Abort

fun statement_of :: "trans_op \<Rightarrow> string" where
  "statement_of Begin = ''BEGIN;''"
| "statement_of Commit = ''COMMIT;''"
| "statement_of Abort = ''ROLLBACK;''"

fun Trans_apply ::
  "('d, 'h, 'r) engine \<Rightarrow> trans_op \<Rightarrow> trans \<Rightarrow> 'd \<Rightarrow> ((error + unit) \<times> trans \<times> 'd) option" where
  "Trans_apply eng Begin t db = Trans_begin eng t db"
| "Trans_apply eng Commit t db = Trans_commit eng t db"
| "Trans_apply eng Abort t db = Trans_abort eng t db"

fun Trans_run ::
  "('d, 'h, 'r) engine \<Rightarrow> trans_op list \<Rightarrow> trans \<times> 'd \<times> string list \<Rightarrow>
   (trans \<times> 'd \<times> string list) option" where
  "Trans_run eng [] st = Some st"
| "Trans_run eng (x # xs) (t, db, issued) =
     (case Trans_apply eng x t db of
        None \<Rightarrow> None
      | Some (Inl e, t1, db1) \<Rightarrow> Trans_run eng xs (t1, db1, issued)
      | Some (Inr u, t1, db1) \<Rightarrow> Trans_run eng xs (t1, db1, issued @ [statement_of x]))"

text \<open>
  In the words of the specification: a BEGIN has been issued without a matching COMMIT or
  ROLLBACK, that is, the issued statements hold more BEGINs than COMMITs and ROLLBACKs.
\<close>

definition unmatched_begin :: "string list \<Rightarrow> bool" where
  "unmatched_begin issued \<longleftrightarrow>
     length (filter (\<lambda>x. x = ''COMMIT;'' \<or> x = ''ROLLBACK;'') issued)
       < length (filter (\<lambda>x. x = ''BEGIN;'') issued)"

section \<open>A stand-in engine for concrete runs\<close>

text \<open>
  To run the model on concrete inputs the engine parameter is filled by a small stand-in
  with canned answers. A statement is the text up to the next semicolon, blanks before it
  skipped; a buffer with nothing but blanks compiles to no statement, with success, as the
  comment in \<open>Req::exec_select\<close> says of the engine; a statement that starts with an
  exclamation mark does not compile (result code 1). \<open>BEGIN\<close>, \<open>COMMIT\<close> and
  \<open>ROLLBACK\<close> switch the transaction state of the connection and fail with result code 1
  when it is already in the state asked for; every other statement returns its canned
  rows one per step and then reports completion. The connection records the statements
  that have run to completion.
\<close>

record cell =
  c_name :: string
  c_text :: "string option"
  c_int64 :: "64 word"
  c_real :: int
  c_blob :: string

record stub_stmt =
  st_text :: string
  st_rows :: "cell list list"
  st_cur :: "cell list"

record stub_db =
  in_txn :: bool
  journal :: "string list"

definition stub_prepare ::
  "(string \<Rightarrow> cell list list) \<Rightarrow> stub_db \<Rightarrow> string \<Rightarrow> nat \<Rightarrow>
   rc \<times> stub_stmt option \<times> nat \<times> stub_db" where
  "stub_prepare answers db head n =
     (let body = dropWhile (\<lambda>c. c = CHR '' '') head;
          txt = takeWhile (\<lambda>c. c \<noteq> CHR '';'') body
      in if body = [] then (SQLITE_OK, None, length head, db)
         else if take 1 txt = ''!'' then (SQLITE_FAIL 1, None, 0, db)
         else (SQLITE_OK,
               Some \<lparr>st_text = txt, st_rows = answers txt, st_cur = []\<rparr>,
               length head - length body + min (length body) (length txt + 1),
               db))"

definition stub_step :: "stub_stmt \<Rightarrow> stub_db \<Rightarrow> rc \<times> stub_stmt \<times> stub_db" where
  "stub_step h db =
     (if st_text h = ''BEGIN'' then
        (if in_txn db then (SQLITE_FAIL 1, h, db)
         else (SQLITE_DONE, h, db\<lparr>in_txn := True, journal := journal db @ [st_text h]\<rparr>))
      else if st_text h = ''COMMIT'' \<or> st_text h = ''ROLLBACK'' then
        (if \<not> in_txn db then (SQLITE_FAIL 1, h, db)
         else (SQLITE_DONE, h, db\<lparr>in_txn := False, journal := journal db @ [st_text h]\<rparr>))
      else
        (case st_rows h of
           [] \<Rightarrow> (SQLITE_DONE, h\<lparr>st_cur := []\<rparr>, db\<lparr>journal := journal db @ [st_text h]\<rparr>)
         | r # rs \<Rightarrow> (SQLITE_ROW, h\<lparr>st_rows := rs, st_cur := r\<rparr>, db)))"

definition stub_engine :: "(string \<Rightarrow> cell list list) \<Rightarrow> (stub_db, stub_stmt, int) engine" where
  "stub_engine answers =
     \<lparr>sqlite3_prepare_v2 = stub_prepare answers,
      sqlite3_step = stub_step,
      sqlite3_finalize = (\<lambda>h db. db),
      sqlite3_column_count = (\<lambda>h. int (length (st_cur h))),
      sqlite3_column_name = (\<lambda>h i. c_name (st_cur h ! nat i)),
      sqlite3_column_text = (\<lambda>h i. c_text (st_cur h ! nat i)),
      sqlite3_column_int = (\<lambda>h i. ucast (c_int64 (st_cur h ! nat i))),
      sqlite3_column_int64 = (\<lambda>h i. c_int64 (st_cur h ! nat i)),
      sqlite3_column_double = (\<lambda>h i. c_real (st_cur h ! nat i)),
      sqlite3_column_bytes = (\<lambda>h i. int (length (c_blob (st_cur h ! nat i)))),
      sqlite3_column_blob = (\<lambda>h i. c_blob (st_cur h ! nat i))\<rparr>"

text \<open>One table \<open>t\<close> with the columns \<open>a\<close> and \<open>b\<close> and a single row.\<close>

definition t_row :: "cell list" where
  "t_row =
     [\<lparr>c_name = ''a'', c_text = Some ''hello!'', c_int64 = 0, c_real = 0, c_blob = ''hello!''\<rparr>,
      \<lparr>c_name = ''b'', c_text = Some ''1'', c_int64 = 1, c_real = 1, c_blob = ''1''\<rparr>]"

text \<open>The row of \<open>select null as a\<close>: one column whose value is SQL NULL.\<close>

definition null_row :: "cell list" where
  "null_row = [\<lparr>c_name = ''a'', c_text = None, c_int64 = 0, c_real = 0, c_blob = []\<rparr>]"

definition t_answers :: "string \<Rightarrow> cell list list" where
  "t_answers txt =
     (if txt = ''select * from t'' then [t_row]
      else if txt = ''select null as a'' then [null_row]
      else [])"

definition t_engine :: "(stub_db, stub_stmt, int) engine" where
  "t_engine = stub_engine t_answers"

text \<open>A connection outside a transaction, and one inside a transaction.\<close>

definition db_idle :: stub_db where
  "db_idle = \<lparr>in_txn = False, journal = []\<rparr>"

definition db_in_txn :: stub_db where
  "db_in_txn = \<lparr>in_txn = True, journal = [''BEGIN'']\<rparr>"

text \<open>The statement of \<open>select * from t\<close> once compiled and once stepped onto its row.\<close>

definition select_compiled :: stub_stmt where
  "select_compiled = \<lparr>st_text = ''select * from t'', st_rows = [t_row], st_cur = []\<rparr>"

definition select_on_row :: stub_stmt where
  "select_on_row = \<lparr>st_text = ''select * from t'', st_rows = [], st_cur = t_row\<rparr>"

text \<open>The statement of \<open>select null as a\<close> stepped onto its row, and the stream there.\<close>

definition null_on_row :: stub_stmt where
  "null_on_row = \<lparr>st_text = ''select null as a'', st_rows = [], st_cur = null_row\<rparr>"

definition null_ready :: "stub_stmt req" where
  "null_ready =
     \<lparr>m_stmt = Some null_on_row, m_sql = ''select null as a;'', m_pos = 17, m_cols = 1\<rparr>"

text \<open>A stream positioned on the row of \<open>select * from t;\<close>: what \<open>exec_select\<close> leaves.\<close>

definition row_ready :: "stub_stmt req" where
  "row_ready =
     \<lparr>m_stmt = Some select_on_row, m_sql = ''select * from t;'', m_pos = 16, m_cols = 2\<rparr>"

section \<open>Basic facts about the operations\<close>

lemma Req_destroy_eq:
  "Req_destroy eng s db = (case m_stmt s of None \<Rightarrow> db | Some h \<Rightarrow> sqlite3_finalize eng h db)"
  by (simp add: Req_destroy_def finalize_def split: option.split)

lemma finalize_eq: "finalize eng s db = (s\<lparr>m_stmt := None\<rparr>, Req_destroy eng s db)"
  by (cases "m_stmt s") (simp_all add: finalize_def Req_destroy_def)

lemma col_check_fails:
  "(\<exists>msg. col_check s i = Inl (UsageError msg)) \<longleftrightarrow>
     (m_stmt s = None \<or> m_cols s = 0 \<or> i < 0 \<or> m_cols s \<le> i)"
  by (auto simp: col_check_def split: option.splits)

lemma col_check_passes:
  "m_stmt s = Some h \<Longrightarrow> m_cols s \<noteq> 0 \<Longrightarrow> 0 \<le> i \<Longrightarrow> i < m_cols s \<Longrightarrow> col_check s i = Inr h"
  by (simp add: col_check_def)

section \<open>clear and reset\<close>

text \<open>
  C8. From every stream state, \<open>clear\<close> empties the buffer, sets the offset and the column
  count to 0 and releases the compiled handle, if there is one, through the engine;
  \<open>reset\<close> does the same and keeps the buffer.
\<close>

theorem clear_reset_effect:
  fixes s :: "'h req"
  shows "clear eng s db =
           (\<lparr>m_stmt = None, m_sql = [], m_pos = 0, m_cols = 0\<rparr>,
            case m_stmt s of None \<Rightarrow> db | Some h \<Rightarrow> sqlite3_finalize eng h db)
       \<and> reset eng s db =
           (\<lparr>m_stmt = None, m_sql = m_sql s, m_pos = 0, m_cols = 0\<rparr>,
            case m_stmt s of None \<Rightarrow> db | Some h \<Rightarrow> sqlite3_finalize eng h db)"
  by (cases s) (simp add: clear_def reset_def finalize_def split: option.split)

section \<open>Calls made while a row is current\<close>

text \<open>
  C6. When the column count of a stream is greater than 0, \<open>exec_select\<close> fails with a
  usage error, and buffer, offset, handle and column count are as before; the engine is
  not called.
\<close>

theorem exec_select_row_current:
  assumes "0 < m_cols s"
  shows "exec_select eng s db =
           Some (Inl (UsageError ''exec_select() called with current row data''), s, db)"
  using assms by (simp add: exec_select_def)

theorem exec_select_row_current_witness:
  "0 < m_cols row_ready
   \<and> exec_select t_engine row_ready db_idle =
       Some (Inl (UsageError ''exec_select() called with current row data''), row_ready, db_idle)"
proof -
  have h: "0 < m_cols row_ready" by (simp add: row_ready_def)
  from exec_select_row_current [OF h] h show ?thesis by simp
qed

text \<open>
  C10. When the column count of a stream is greater than 0, \<open>exec\<close> fails with a usage
  error before it runs any statement, and the stream is as before.
\<close>

theorem exec_row_current:
  assumes "0 < m_cols s"
  shows "exec eng s db = Some (Inl (UsageError ''exec() called with current row data''), s, db)"
  using assms by (simp add: exec_def)

theorem exec_row_current_witness:
  "0 < m_cols row_ready
   \<and> exec t_engine row_ready db_in_txn =
       Some (Inl (UsageError ''exec() called with current row data''), row_ready, db_in_txn)"
proof -
  have h: "0 < m_cols row_ready" by (simp add: row_ready_def)
  from exec_row_current [OF h] h show ?thesis by simp
qed

section \<open>Column accessors\<close>

lemma col_check_chain_fails:
  "(\<exists>msg. (case col_check s i of Inl e \<Rightarrow> Inl e | Inr h \<Rightarrow> Inr (f h)) = Inl (UsageError msg)) \<longleftrightarrow>
     (m_stmt s = None \<or> m_cols s = 0 \<or> i < 0 \<or> m_cols s \<le> i)"
  using col_check_fails [of s i] by (cases "col_check s i") auto

lemma col_check_text_fails:
  "(\<exists>msg. (case col_check s i of
              Inl e \<Rightarrow> Inl e
            | Inr h \<Rightarrow> (case g h of None \<Rightarrow> Inl Undefined | Some txt \<Rightarrow> Inr txt))
           = Inl (UsageError msg)) \<longleftrightarrow>
     (m_stmt s = None \<or> m_cols s = 0 \<or> i < 0 \<or> m_cols s \<le> i)"
  using col_check_fails [of s i]
  by (cases "col_check s i") (auto split: option.splits)

text \<open>
  What the accessors do for every engine and stream. Each of them fails with a usage
  error exactly when the stream has no compiled handle, or its column count is 0, or the
  index is negative or not below the column count. Past the checks, the accessors for the
  name, the integers, the real and the blob return what the engine gives at that index;
  the two text accessors do so when the engine gives a text, and have no defined
  behaviour when it gives the null pointer.
\<close>

lemma col_accessors:
  fixes s :: "'h req" and i :: int and eng :: "('d, 'h, 'r) engine"
  shows
    "((\<exists>msg. col_name eng s i = Inl (UsageError msg)) \<longleftrightarrow>
        (m_stmt s = None \<or> m_cols s = 0 \<or> i < 0 \<or> m_cols s \<le> i))
     \<and> ((\<exists>msg. col_name_to eng s i str = Inl (UsageError msg)) \<longleftrightarrow>
        (m_stmt s = None \<or> m_cols s = 0 \<or> i < 0 \<or> m_cols s \<le> i))
     \<and> ((\<exists>msg. col_text eng s i = Inl (UsageError msg)) \<longleftrightarrow>
        (m_stmt s = None \<or> m_cols s = 0 \<or> i < 0 \<or> m_cols s \<le> i))
     \<and> ((\<exists>msg. col_text_to eng s i str = Inl (UsageError msg)) \<longleftrightarrow>
        (m_stmt s = None \<or> m_cols s = 0 \<or> i < 0 \<or> m_cols s \<le> i))
     \<and> ((\<exists>msg. col_int eng s i = Inl (UsageError msg)) \<longleftrightarrow>
        (m_stmt s = None \<or> m_cols s = 0 \<or> i < 0 \<or> m_cols s \<le> i))
     \<and> ((\<exists>msg. col_int64 eng s i = Inl (UsageError msg)) \<longleftrightarrow>
        (m_stmt s = None \<or> m_cols s = 0 \<or> i < 0 \<or> m_cols s \<le> i))
     \<and> ((\<exists>msg. col_real eng s i = Inl (UsageError msg)) \<longleftrightarrow>
        (m_stmt s = None \<or> m_cols s = 0 \<or> i < 0 \<or> m_cols s \<le> i))
     \<and> ((\<exists>msg. col_blob eng s i vec = Inl (UsageError msg)) \<longleftrightarrow>
        (m_stmt s = None \<or> m_cols s = 0 \<or> i < 0 \<or> m_cols s \<le> i))
     \<and> (\<forall>h. m_stmt s = Some h \<and> m_cols s \<noteq> 0 \<and> 0 \<le> i \<and> i < m_cols s \<longrightarrow>
            col_name eng s i = Inr (sqlite3_column_name eng h i)
          \<and> col_name_to eng s i str = Inr (sqlite3_column_name eng h i)
          \<and> col_int eng s i = Inr (sqlite3_column_int eng h i)
          \<and> col_int64 eng s i = Inr (sqlite3_column_int64 eng h i)
          \<and> col_real eng s i = Inr (sqlite3_column_double eng h i)
          \<and> col_blob eng s i vec =
              Inr (take (nat (sqlite3_column_bytes eng h i)) (sqlite3_column_blob eng h i))
          \<and> (\<forall>txt. sqlite3_column_text eng h i = Some txt \<longrightarrow>
                col_text eng s i = Inr txt \<and> col_text_to eng s i str = Inr txt)
          \<and> (sqlite3_column_text eng h i = None \<longrightarrow>
                col_text eng s i = Inl Undefined \<and> col_text_to eng s i str = Inl Undefined))"
proof -
  have fails:
    "(\<exists>msg. col_name eng s i = Inl (UsageError msg)) \<longleftrightarrow>
        (m_stmt s = None \<or> m_cols s = 0 \<or> i < 0 \<or> m_cols s \<le> i)"
    "(\<exists>msg. col_name_to eng s i str = Inl (UsageError msg)) \<longleftrightarrow>
        (m_stmt s = None \<or> m_cols s = 0 \<or> i < 0 \<or> m_cols s \<le> i)"
    "(\<exists>msg. col_int eng s i = Inl (UsageError msg)) \<longleftrightarrow>
        (m_stmt s = None \<or> m_cols s = 0 \<or> i < 0 \<or> m_cols s \<le> i)"
    "(\<exists>msg. col_int64 eng s i = Inl (UsageError msg)) \<longleftrightarrow>
        (m_stmt s = None \<or> m_cols s = 0 \<or> i < 0 \<or> m_cols s \<le> i)"
    "(\<exists>msg. col_real eng s i = Inl (UsageError msg)) \<longleftrightarrow>
        (m_stmt s = None \<or> m_cols s = 0 \<or> i < 0 \<or> m_cols s \<le> i)"
    "(\<exists>msg. col_blob eng s i vec = Inl (UsageError msg)) \<longleftrightarrow>
        (m_stmt s = None \<or> m_cols s = 0 \<or> i < 0 \<or> m_cols s \<le> i)"
    unfolding col_name_def col_name_to_def col_int_def col_int64_def col_real_def col_blob_def
    by (rule col_check_chain_fails)+
  have text_fails:
    "(\<exists>msg. col_text eng s i = Inl (UsageError msg)) \<longleftrightarrow>
        (m_stmt s = None \<or> m_cols s = 0 \<or> i < 0 \<or> m_cols s \<le> i)"
    "(\<exists>msg. col_text_to eng s i str = Inl (UsageError msg)) \<longleftrightarrow>
        (m_stmt s = None \<or> m_cols s = 0 \<or> i < 0 \<or> m_cols s \<le> i)"
    unfolding col_text_def col_text_to_def
    by (rule col_check_text_fails)+
  have passes:
    "col_name eng s i = Inr (sqlite3_column_name eng h i)
     \<and> col_name_to eng s i str = Inr (sqlite3_column_name eng h i)
     \<and> col_int eng s i = Inr (sqlite3_column_int eng h i)
     \<and> col_int64 eng s i = Inr (sqlite3_column_int64 eng h i)
     \<and> col_real eng s i = Inr (sqlite3_column_double eng h i)
     \<and> col_blob eng s i vec =
         Inr (take (nat (sqlite3_column_bytes eng h i)) (sqlite3_column_blob eng h i))
     \<and> (\<forall>txt. sqlite3_column_text eng h i = Some txt \<longrightarrow>
           col_text eng s i = Inr txt \<and> col_text_to eng s i str = Inr txt)
     \<and> (sqlite3_column_text eng h i = None \<longrightarrow>
           col_text eng s i = Inl Undefined \<and> col_text_to eng s i str = Inl Undefined)"
    if "m_stmt s = Some h \<and> m_cols s \<noteq> 0 \<and> 0 \<le> i \<and> i < m_cols s" for h
    using that
    by (simp add: col_name_def col_name_to_def col_text_def col_text_to_def col_int_def
        col_int64_def col_real_def col_blob_def col_check_passes)
  then have passes_all:
    "\<forall>h. m_stmt s = Some h \<and> m_cols s \<noteq> 0 \<and> 0 \<le> i \<and> i < m_cols s \<longrightarrow>
            col_name eng s i = Inr (sqlite3_column_name eng h i)
          \<and> col_name_to eng s i str = Inr (sqlite3_column_name eng h i)
          \<and> col_int eng s i = Inr (sqlite3_column_int eng h i)
          \<and> col_int64 eng s i = Inr (sqlite3_column_int64 eng h i)
          \<and> col_real eng s i = Inr (sqlite3_column_double eng h i)
          \<and> col_blob eng s i vec =
              Inr (take (nat (sqlite3_column_bytes eng h i)) (sqlite3_column_blob eng h i))
          \<and> (\<forall>txt. sqlite3_column_text eng h i = Some txt \<longrightarrow>
                col_text eng s i = Inr txt \<and> col_text_to eng s i str = Inr txt)
          \<and> (sqlite3_column_text eng h i = None \<longrightarrow>
                col_text eng s i = Inl Undefined \<and> col_text_to eng s i str = Inl Undefined)"
    by (intro allI impI)
  from fails(1,2) text_fails fails(3-6) passes_all show ?thesis
    by (intro conjI)
qed

text \<open>On the second column of the row of \<open>select * from t;\<close> every accessor returns.\<close>

lemma col_accessors_on_row:
  "col_name t_engine row_ready 1 = Inr ''b''
   \<and> col_name_to t_engine row_ready 1 ''old'' = Inr ''b''
   \<and> col_text t_engine row_ready 1 = Inr ''1''
   \<and> col_text_to t_engine row_ready 1 ''old'' = Inr ''1''
   \<and> col_int t_engine row_ready 1 = Inr 1
   \<and> col_int64 t_engine row_ready 1 = Inr 1
   \<and> col_real t_engine row_ready 1 = Inr 1
   \<and> col_blob t_engine row_ready 1 ''old'' = Inr ''1''
   \<and> col_text t_engine row_ready 2
       = Inl (UsageError ''column operation called with invalid column number'')"
  by (simp add: col_name_def col_name_to_def col_text_def col_text_to_def col_int_def
      col_int64_def col_real_def col_blob_def col_check_def row_ready_def
      t_engine_def stub_engine_def select_on_row_def t_row_def)

text \<open>
  C7. Each column accessor, at each index \<open>i\<close>, is to fail with a usage error exactly
  when the stream has no compiled handle, or its column count is 0, or \<open>i\<close> is outside
  the columns, and is to return the engine's typed value for the current row at \<open>i\<close> in
  every other case. The code does not do the latter for the text accessors. The stream
  that \<open>exec_select\<close> leaves on the row of \<open>select null as a;\<close> has a handle and one
  column, so index 0 passes the three checks; the engine gives the null pointer for the
  text of a column that is SQL NULL; \<open>col_text\<close> builds a string from it and its overload
  assigns from it, and neither returns a value or fails with a usage error. On the same
  column the accessors for the name, the integers and the blob return the engine's value.
\<close>

theorem col_text_null_column:
  "exec_select t_engine (sql_append Req_init ''select null as a;'') db_idle
     = Some (Inr 1, null_ready, db_idle)
   \<and> m_stmt null_ready = Some null_on_row
   \<and> m_cols null_ready = 1
   \<and> sqlite3_column_text t_engine null_on_row 0 = None
   \<and> col_text t_engine null_ready 0 = Inl Undefined
   \<and> col_text_to t_engine null_ready 0 ''old'' = Inl Undefined
   \<and> col_name t_engine null_ready 0 = Inr ''a''
   \<and> col_int t_engine null_ready 0 = Inr 0
   \<and> col_int64 t_engine null_ready 0 = Inr 0
   \<and> col_blob t_engine null_ready 0 ''old'' = Inr []"
proof -
  have run: "exec_select t_engine (sql_append Req_init ''select null as a;'') db_idle
     = Some (Inr 1, null_ready, db_idle)"
    by code_simp
  have rest:
    "m_stmt null_ready = Some null_on_row"
    "m_cols null_ready = 1"
    "sqlite3_column_text t_engine null_on_row 0 = None"
    "col_text t_engine null_ready 0 = Inl Undefined"
    "col_text_to t_engine null_ready 0 ''old'' = Inl Undefined"
    "col_name t_engine null_ready 0 = Inr ''a''"
    "col_int t_engine null_ready 0 = Inr 0"
    "col_int64 t_engine null_ready 0 = Inr 0"
    "col_blob t_engine null_ready 0 ''old'' = Inr []"
    by (simp_all add: col_name_def col_text_def col_text_to_def col_int_def
        col_int64_def col_blob_def col_check_def null_ready_def null_on_row_def null_row_def
        t_engine_def stub_engine_def)
  from run rest show ?thesis
    by (intro conjI)
qed

section \<open>prepare: compiling the next statement\<close>

text \<open>
  C4, as the code has it. \<open>prepare\<close> first releases the compiled handle, if any. When the
  offset is at or past the end of the buffer it stops there, with no handle and without
  calling the engine. Otherwise the engine compiles the buffer from the offset on; when it
  reports success, the stream holds the handle the engine gave, which may be none, and the
  offset has moved by exactly the number of bytes the engine consumed, whether or not that
  passes the end of the buffer; when it reports a failure, \<open>prepare\<close> fails with that
  engine error and the offset has not moved.
\<close>

theorem prepare_effect:
  "(length (m_sql s) \<le> m_pos s \<longrightarrow>
      prepare eng s db = (Inr (), s\<lparr>m_stmt := None\<rparr>, Req_destroy eng s db))
   \<and> (m_pos s < length (m_sql s)
        \<and> sqlite3_prepare_v2 eng (Req_destroy eng s db) (drop (m_pos s) (m_sql s))
              (length (m_sql s) + 1) = (SQLITE_OK, h, n, db2) \<longrightarrow>
      prepare eng s db = (Inr (), s\<lparr>m_stmt := h, m_pos := m_pos s + n\<rparr>, db2))
   \<and> (m_pos s < length (m_sql s)
        \<and> sqlite3_prepare_v2 eng (Req_destroy eng s db) (drop (m_pos s) (m_sql s))
              (length (m_sql s) + 1) = (r, h, n, db2)
        \<and> r \<noteq> SQLITE_OK \<longrightarrow>
      prepare eng s db = (Inl (EngineError r), s\<lparr>m_stmt := h\<rparr>, db2))"
  by (simp add: prepare_def finalize_eq)

theorem prepare_effect_witness:
  "length (m_sql (Req_init :: stub_stmt req)) \<le> m_pos (Req_init :: stub_stmt req)
   \<and> prepare t_engine Req_init db_idle = (Inr (), Req_init, db_idle)
   \<and> m_pos (sql_append Req_init ''select * from t;'' :: stub_stmt req)
        < length (m_sql (sql_append Req_init ''select * from t;'' :: stub_stmt req))
   \<and> sqlite3_prepare_v2 t_engine db_idle ''select * from t;'' 17
        = (SQLITE_OK, Some select_compiled, 16, db_idle)
   \<and> prepare t_engine (sql_append Req_init ''select * from t;'') db_idle
        = (Inr (),
           \<lparr>m_stmt = Some select_compiled, m_sql = ''select * from t;'', m_pos = 16, m_cols = 0\<rparr>,
           db_idle)
   \<and> sqlite3_prepare_v2 t_engine db_idle ''!select;'' 9 = (SQLITE_FAIL 1, None, 0, db_idle)
   \<and> SQLITE_FAIL 1 \<noteq> SQLITE_OK
   \<and> prepare t_engine (sql_append Req_init ''!select;'') db_idle
        = (Inl (EngineError (SQLITE_FAIL 1)),
           \<lparr>m_stmt = None, m_sql = ''!select;'', m_pos = 0, m_cols = 0\<rparr>,
           db_idle)"
proof -
  let ?s0 = "Req_init :: stub_stmt req"
  let ?s1 = "sql_append Req_init ''select * from t;'' :: stub_stmt req"
  let ?s2 = "sql_append Req_init ''!select;'' :: stub_stmt req"
  have a: "length (m_sql ?s0) \<le> m_pos ?s0"
    by (simp add: Req_init_def)
  have b: "m_pos ?s1 < length (m_sql ?s1)"
    by (simp add: Req_init_def sql_append_def)
  have b': "sqlite3_prepare_v2 t_engine db_idle ''select * from t;'' 17
      = (SQLITE_OK, Some select_compiled, 16, db_idle)"
    by (simp add: t_engine_def stub_engine_def stub_prepare_def t_answers_def select_compiled_def)
  have c: "m_pos ?s2 < length (m_sql ?s2)"
    by (simp add: Req_init_def sql_append_def)
  have c': "sqlite3_prepare_v2 t_engine db_idle ''!select;'' 9 = (SQLITE_FAIL 1, None, 0, db_idle)"
    by (simp add: t_engine_def stub_engine_def stub_prepare_def)
  have d: "SQLITE_FAIL 1 \<noteq> SQLITE_OK"
    by simp
  have b'': "sqlite3_prepare_v2 t_engine (Req_destroy t_engine ?s1 db_idle)
      (drop (m_pos ?s1) (m_sql ?s1)) (length (m_sql ?s1) + 1)
      = (SQLITE_OK, Some select_compiled, 16, db_idle)"
    by (simp add: Req_init_def sql_append_def Req_destroy_eq
        t_engine_def stub_engine_def stub_prepare_def t_answers_def select_compiled_def)
  have c'': "sqlite3_prepare_v2 t_engine (Req_destroy t_engine ?s2 db_idle)
      (drop (m_pos ?s2) (m_sql ?s2)) (length (m_sql ?s2) + 1)
      = (SQLITE_FAIL 1, None, 0, db_idle)"
    by (simp add: Req_init_def sql_append_def Req_destroy_eq
        t_engine_def stub_engine_def stub_prepare_def)
  note p1 = prepare_effect [of ?s0 t_engine db_idle, THEN conjunct1, rule_format, OF a]
  note p2 = prepare_effect [of ?s1 t_engine db_idle "Some select_compiled" 16 db_idle,
      THEN conjunct2, THEN conjunct1, rule_format, OF conjI [OF b b'']]
  note p3 = prepare_effect [of ?s2 t_engine db_idle None 0 db_idle "SQLITE_FAIL 1",
      THEN conjunct2, THEN conjunct2, rule_format, OF conjI [OF c conjI [OF c'' d]]]
  from p1 have 1: "prepare t_engine Req_init db_idle = (Inr (), Req_init, db_idle)"
    by (simp add: Req_init_def Req_destroy_eq)
  from p2 have 2: "prepare t_engine ?s1 db_idle
      = (Inr (),
         \<lparr>m_stmt = Some select_compiled, m_sql = ''select * from t;'', m_pos = 16, m_cols = 0\<rparr>,
         db_idle)"
    by (simp add: Req_init_def sql_append_def)
  from p3 have 3: "prepare t_engine ?s2 db_idle
      = (Inl (EngineError (SQLITE_FAIL 1)),
         \<lparr>m_stmt = None, m_sql = ''!select;'', m_pos = 0, m_cols = 0\<rparr>,
         db_idle)"
    by (simp add: Req_init_def sql_append_def)
  from a b b' c c' d 1 2 3 show ?thesis
    by (intro conjI)
qed

text \<open>
  C4 as stated fails in one direction: a buffer that holds a single blank has its offset
  before its end, and \<open>prepare\<close> succeeds there with no compiled handle.
\<close>

theorem prepare_iff_counterexample:
  "m_pos (sql_append Req_init '' '' :: stub_stmt req)
     < length (m_sql (sql_append Req_init '' '' :: stub_stmt req))
   \<and> prepare t_engine (sql_append Req_init '' '') db_idle
       = (Inr (), \<lparr>m_stmt = None, m_sql = '' '', m_pos = 1, m_cols = 0\<rparr>, db_idle)"
  by (simp add: prepare_def finalize_def Req_init_def sql_append_def
      t_engine_def stub_engine_def stub_prepare_def)

section \<open>next_row at the end of a result\<close>

text \<open>
  C2, as the code has it. For a stream with a compiled handle and a column count above 0,
  when the step made by \<open>next_row\<close> reports completion, \<open>next_row\<close> returns 0 and sets the
  column count to 0; buffer and offset are as before, and the stream still holds the
  compiled handle, now the stepped statement. Nothing is released here.
\<close>

theorem next_row_done:
  assumes "m_stmt s = Some h"
    and "0 < m_cols s"
    and "sqlite3_step eng h db = (SQLITE_DONE, h', db')"
  shows "next_row eng s db = (Inr 0, s\<lparr>m_stmt := Some h', m_cols := 0\<rparr>, db')"
  using assms by (simp add: next_row_def)

theorem next_row_done_witness:
  "m_stmt row_ready = Some select_on_row
   \<and> 0 < m_cols row_ready
   \<and> sqlite3_step t_engine select_on_row db_idle
       = (SQLITE_DONE,
          \<lparr>st_text = ''select * from t'', st_rows = [], st_cur = []\<rparr>,
          \<lparr>in_txn = False, journal = [''select * from t'']\<rparr>)
   \<and> next_row t_engine row_ready db_idle
       = (Inr 0,
          \<lparr>m_stmt = Some \<lparr>st_text = ''select * from t'', st_rows = [], st_cur = []\<rparr>,
           m_sql = ''select * from t;'', m_pos = 16, m_cols = 0\<rparr>,
          \<lparr>in_txn = False, journal = [''select * from t'']\<rparr>)"
proof -
  have a: "m_stmt row_ready = Some select_on_row"
    by (simp add: row_ready_def)
  have b: "0 < m_cols row_ready"
    by (simp add: row_ready_def)
  have c: "sqlite3_step t_engine select_on_row db_idle
       = (SQLITE_DONE,
          \<lparr>st_text = ''select * from t'', st_rows = [], st_cur = []\<rparr>,
          \<lparr>in_txn = False, journal = [''select * from t'']\<rparr>)"
    by (simp add: t_engine_def stub_engine_def stub_step_def select_on_row_def db_idle_def)
  from next_row_done [OF a b c] a b c show ?thesis
    by (simp add: row_ready_def)
qed

text \<open>
  C2 as stated fails where it says that the stream is left without a compiled handle:
  on the stream that stands on the only row of \<open>select * from t;\<close> the step reports
  completion, \<open>next_row\<close> returns 0 with the column count at 0, and the handle is still
  there.
\<close>

theorem next_row_idle_counterexample:
  "m_stmt row_ready \<noteq> None
   \<and> 0 < m_cols row_ready
   \<and> fst (sqlite3_step t_engine (the (m_stmt row_ready)) db_idle) = SQLITE_DONE
   \<and> fst (next_row t_engine row_ready db_idle) = Inr 0
   \<and> m_cols (fst (snd (next_row t_engine row_ready db_idle))) = 0
   \<and> m_stmt (fst (snd (next_row t_engine row_ready db_idle))) \<noteq> None"
  by (simp add: next_row_def row_ready_def t_engine_def stub_engine_def stub_step_def
      select_on_row_def db_idle_def)

section \<open>exec_select: statement by statement\<close>

lemma prepare_m_cols: "prepare eng s db = (res, s1, db1) \<Longrightarrow> m_cols s1 = m_cols s"
  by (auto simp: prepare_def finalize_eq split: if_splits prod.splits)

lemma loop_no_statement:
  assumes "prepare eng s db = (Inr (), s1, db1)" and "m_stmt s1 = None"
  shows "exec_select_loop eng s db = Some (Inr 0, s1, db1)"
  by (subst exec_select_loop.simps) (simp add: assms)

lemma loop_no_rows:
  assumes "prepare eng s db = (Inr (), s1, db1)" and "m_stmt s1 = Some h"
    and "sqlite3_step eng h db1 = (SQLITE_DONE, h', db2)"
  shows "exec_select_loop eng s db = exec_select_loop eng (s1\<lparr>m_stmt := Some h'\<rparr>) db2"
  by (subst exec_select_loop.simps) (simp add: assms)

lemma loop_row:
  assumes "prepare eng s db = (Inr (), s1, db1)" and "m_stmt s1 = Some h"
    and "sqlite3_step eng h db1 = (SQLITE_ROW, h', db2)"
  shows "exec_select_loop eng s db =
           Some (Inr (sqlite3_column_count eng h'),
                 s1\<lparr>m_stmt := Some h', m_cols := sqlite3_column_count eng h'\<rparr>, db2)"
  by (subst exec_select_loop.simps) (simp add: assms)

text \<open>
  C1. On a stream with no current row, \<open>exec_select\<close> releases the handle it holds and
  goes through the buffer from the offset on, one statement at a time:
  \<^item> with the offset at or past the end of the buffer, or when the engine compiles
    nothing from the rest, no statement remains and it returns 0;
  \<^item> when the engine compiles a statement and its step reports completion without a
    row, the result is that of \<open>exec_select\<close> on the stream moved past this statement,
    that is, the loop goes on with the next statement;
  \<^item> when the step reports a row, it returns the column count of the statement and has
    stored it as the column count of the stream.
\<close>

theorem exec_select_statement_by_statement:
  "(m_cols s = 0 \<and> length (m_sql s) \<le> m_pos s \<longrightarrow>
      exec_select eng s db = Some (Inr 0, s\<lparr>m_stmt := None\<rparr>, Req_destroy eng s db))
   \<and> (m_cols s = 0 \<and> m_pos s < length (m_sql s)
        \<and> sqlite3_prepare_v2 eng (Req_destroy eng s db) (drop (m_pos s) (m_sql s))
              (length (m_sql s) + 1) = (SQLITE_OK, None, n, db1) \<longrightarrow>
      exec_select eng s db = Some (Inr 0, s\<lparr>m_stmt := None, m_pos := m_pos s + n\<rparr>, db1))
   \<and> (m_cols s = 0 \<and> m_pos s < length (m_sql s)
        \<and> sqlite3_prepare_v2 eng (Req_destroy eng s db) (drop (m_pos s) (m_sql s))
              (length (m_sql s) + 1) = (SQLITE_OK, Some h, n, db1)
        \<and> sqlite3_step eng h db1 = (SQLITE_DONE, h', db2) \<longrightarrow>
      exec_select eng s db = exec_select eng (s\<lparr>m_stmt := Some h', m_pos := m_pos s + n\<rparr>) db2)
   \<and> (m_cols s = 0 \<and> m_pos s < length (m_sql s)
        \<and> sqlite3_prepare_v2 eng (Req_destroy eng s db) (drop (m_pos s) (m_sql s))
              (length (m_sql s) + 1) = (SQLITE_OK, Some h, n, db1)
        \<and> sqlite3_step eng h db1 = (SQLITE_ROW, h', db2) \<longrightarrow>
      exec_select eng s db =
        Some (Inr (sqlite3_column_count eng h'),
              s\<lparr>m_stmt := Some h', m_pos := m_pos s + n, m_cols := sqlite3_column_count eng h'\<rparr>,
              db2))"
proof (intro conjI impI)
  assume "m_cols s = 0 \<and> length (m_sql s) \<le> m_pos s"
  then have c: "m_cols s = 0"
    and p: "prepare eng s db = (Inr (), s\<lparr>m_stmt := None\<rparr>, Req_destroy eng s db)"
    by (simp_all add: prepare_def finalize_eq)
  from loop_no_statement [OF p] c
  show "exec_select eng s db = Some (Inr 0, s\<lparr>m_stmt := None\<rparr>, Req_destroy eng s db)"
    by (simp add: exec_select_def)
next
  assume "m_cols s = 0 \<and> m_pos s < length (m_sql s)
    \<and> sqlite3_prepare_v2 eng (Req_destroy eng s db) (drop (m_pos s) (m_sql s))
         (length (m_sql s) + 1) = (SQLITE_OK, None, n, db1)"
  then have c: "m_cols s = 0"
    and p: "prepare eng s db = (Inr (), s\<lparr>m_stmt := None, m_pos := m_pos s + n\<rparr>, db1)"
    by (simp_all add: prepare_def finalize_eq)
  from loop_no_statement [OF p] c
  show "exec_select eng s db = Some (Inr 0, s\<lparr>m_stmt := None, m_pos := m_pos s + n\<rparr>, db1)"
    by (simp add: exec_select_def)
next
  assume "m_cols s = 0 \<and> m_pos s < length (m_sql s)
    \<and> sqlite3_prepare_v2 eng (Req_destroy eng s db) (drop (m_pos s) (m_sql s))
         (length (m_sql s) + 1) = (SQLITE_OK, Some h, n, db1)
    \<and> sqlite3_step eng h db1 = (SQLITE_DONE, h', db2)"
  then have c: "m_cols s = 0"
    and p: "prepare eng s db = (Inr (), s\<lparr>m_stmt := Some h, m_pos := m_pos s + n\<rparr>, db1)"
    and st: "sqlite3_step eng h db1 = (SQLITE_DONE, h', db2)"
    by (simp_all add: prepare_def finalize_eq)
  from loop_no_rows [OF p _ st] c
  show "exec_select eng s db
      = exec_select eng (s\<lparr>m_stmt := Some h', m_pos := m_pos s + n\<rparr>) db2"
    by (cases s) (simp add: exec_select_def)
next
  assume "m_cols s = 0 \<and> m_pos s < length (m_sql s)
    \<and> sqlite3_prepare_v2 eng (Req_destroy eng s db) (drop (m_pos s) (m_sql s))
         (length (m_sql s) + 1) = (SQLITE_OK, Some h, n, db1)
    \<and> sqlite3_step eng h db1 = (SQLITE_ROW, h', db2)"
  then have c: "m_cols s = 0"
    and p: "prepare eng s db = (Inr (), s\<lparr>m_stmt := Some h, m_pos := m_pos s + n\<rparr>, db1)"
    and st: "sqlite3_step eng h db1 = (SQLITE_ROW, h', db2)"
    by (simp_all add: prepare_def finalize_eq)
  from loop_row [OF p _ st] c
  show "exec_select eng s db =
      Some (Inr (sqlite3_column_count eng h'),
            s\<lparr>m_stmt := Some h', m_pos := m_pos s + n, m_cols := sqlite3_column_count eng h'\<rparr>,
            db2)"
    by (simp add: exec_select_def)
qed

theorem exec_select_statement_by_statement_witness:
  "m_cols (Req_init :: stub_stmt req) = 0
   \<and> length (m_sql (Req_init :: stub_stmt req)) \<le> m_pos (Req_init :: stub_stmt req)
   \<and> exec_select t_engine Req_init db_idle = Some (Inr 0, Req_init, db_idle)
   \<and> sqlite3_prepare_v2 t_engine db_idle '' '' 2 = (SQLITE_OK, None, 1, db_idle)
   \<and> exec_select t_engine (sql_append Req_init '' '') db_idle
       = Some (Inr 0, \<lparr>m_stmt = None, m_sql = '' '', m_pos = 1, m_cols = 0\<rparr>, db_idle)
   \<and> sqlite3_prepare_v2 t_engine db_idle ''create table t(a, b);select * from t;'' 38
       = (SQLITE_OK, Some \<lparr>st_text = ''create table t(a, b)'', st_rows = [], st_cur = []\<rparr>,
          21, db_idle)
   \<and> sqlite3_step t_engine \<lparr>st_text = ''create table t(a, b)'', st_rows = [], st_cur = []\<rparr> db_idle
       = (SQLITE_DONE, \<lparr>st_text = ''create table t(a, b)'', st_rows = [], st_cur = []\<rparr>,
          \<lparr>in_txn = False, journal = [''create table t(a, b)'']\<rparr>)
   \<and> exec_select t_engine (sql_append Req_init ''create table t(a, b);select * from t;'') db_idle
       = exec_select t_engine
           \<lparr>m_stmt = Some \<lparr>st_text = ''create table t(a, b)'', st_rows = [], st_cur = []\<rparr>,
            m_sql = ''create table t(a, b);select * from t;'', m_pos = 21, m_cols = 0\<rparr>
           \<lparr>in_txn = False, journal = [''create table t(a, b)'']\<rparr>
   \<and> exec_select t_engine (sql_append Req_init ''create table t(a, b);select * from t;'') db_idle
       = Some (Inr 2,
           \<lparr>m_stmt = Some select_on_row,
            m_sql = ''create table t(a, b);select * from t;'', m_pos = 37, m_cols = 2\<rparr>,
           \<lparr>in_txn = False, journal = [''create table t(a, b)'']\<rparr>)
   \<and> sqlite3_prepare_v2 t_engine db_idle ''select * from t;'' 17
       = (SQLITE_OK, Some select_compiled, 16, db_idle)
   \<and> sqlite3_step t_engine select_compiled db_idle = (SQLITE_ROW, select_on_row, db_idle)
   \<and> sqlite3_column_count t_engine select_on_row = 2
   \<and> exec_select t_engine (sql_append Req_init ''select * from t;'') db_idle
       = Some (Inr 2, row_ready, db_idle)
   \<and> exec_select t_engine
         (sql_append Req_init ''create table t(a, b); insert into t values(1, 2);'') db_idle
       = Some (Inr 0,
           \<lparr>m_stmt = None, m_sql = ''create table t(a, b); insert into t values(1, 2);'',
            m_pos = 49, m_cols = 0\<rparr>,
           \<lparr>in_txn = False,
            journal = [''create table t(a, b)'', ''insert into t values(1, 2)'']\<rparr>)"
proof -
  let ?s0 = "Req_init :: stub_stmt req"
  let ?s1 = "sql_append Req_init '' '' :: stub_stmt req"
  let ?s2 = "sql_append Req_init ''create table t(a, b);select * from t;'' :: stub_stmt req"
  let ?s3 = "sql_append Req_init ''select * from t;'' :: stub_stmt req"
  let ?create = "\<lparr>st_text = ''create table t(a, b)'', st_rows = [], st_cur = []\<rparr>"
  let ?db1 = "\<lparr>in_txn = False, journal = [''create table t(a, b)'']\<rparr>"
  note stub = t_engine_def stub_engine_def stub_prepare_def stub_step_def t_answers_def
    select_compiled_def select_on_row_def db_idle_def
  note streams = Req_init_def sql_append_def Req_destroy_eq
  have a0: "m_cols ?s0 = 0 \<and> length (m_sql ?s0) \<le> m_pos ?s0"
    by (simp add: Req_init_def)
  have a1: "m_cols ?s1 = 0 \<and> m_pos ?s1 < length (m_sql ?s1)
      \<and> sqlite3_prepare_v2 t_engine (Req_destroy t_engine ?s1 db_idle)
           (drop (m_pos ?s1) (m_sql ?s1)) (length (m_sql ?s1) + 1)
         = (SQLITE_OK, None, 1, db_idle)"
    by (simp add: streams stub)
  have a2: "m_cols ?s2 = 0 \<and> m_pos ?s2 < length (m_sql ?s2)
      \<and> sqlite3_prepare_v2 t_engine (Req_destroy t_engine ?s2 db_idle)
           (drop (m_pos ?s2) (m_sql ?s2)) (length (m_sql ?s2) + 1)
         = (SQLITE_OK, Some ?create, 21, db_idle)
      \<and> sqlite3_step t_engine ?create db_idle = (SQLITE_DONE, ?create, ?db1)"
    by (simp add: streams stub)
  have a3: "m_cols ?s3 = 0 \<and> m_pos ?s3 < length (m_sql ?s3)
      \<and> sqlite3_prepare_v2 t_engine (Req_destroy t_engine ?s3 db_idle)
           (drop (m_pos ?s3) (m_sql ?s3)) (length (m_sql ?s3) + 1)
         = (SQLITE_OK, Some select_compiled, 16, db_idle)
      \<and> sqlite3_step t_engine select_compiled db_idle = (SQLITE_ROW, select_on_row, db_idle)"
    by (simp add: streams stub)
  note r0 = exec_select_statement_by_statement [of ?s0 t_engine db_idle,
      THEN conjunct1, rule_format, OF a0]
  note r1 = exec_select_statement_by_statement [of ?s1 t_engine db_idle 1 db_idle,
      THEN conjunct2, THEN conjunct1, rule_format, OF a1]
  note r2 = exec_select_statement_by_statement [of ?s2 t_engine db_idle 21 db_idle
        ?create ?create ?db1,
      THEN conjunct2, THEN conjunct2, THEN conjunct1, rule_format, OF a2]
  note r3 = exec_select_statement_by_statement [of ?s3 t_engine db_idle 16 db_idle
        select_compiled select_on_row db_idle,
      THEN conjunct2, THEN conjunct2, THEN conjunct2, rule_format, OF a3]
  have cc: "sqlite3_column_count t_engine select_on_row = 2"
    by (simp add: stub t_row_def)
  have h0: "m_cols ?s0 = 0" "length (m_sql ?s0) \<le> m_pos ?s0"
    using a0 by simp_all
  have h1: "sqlite3_prepare_v2 t_engine db_idle '' '' 2 = (SQLITE_OK, None, 1, db_idle)"
    by (simp add: stub)
  have h2: "sqlite3_prepare_v2 t_engine db_idle ''create table t(a, b);select * from t;'' 38
       = (SQLITE_OK, Some ?create, 21, db_idle)"
    "sqlite3_step t_engine ?create db_idle = (SQLITE_DONE, ?create, ?db1)"
    by (simp_all add: stub)
  have h3: "sqlite3_prepare_v2 t_engine db_idle ''select * from t;'' 17
       = (SQLITE_OK, Some select_compiled, 16, db_idle)"
    "sqlite3_step t_engine select_compiled db_idle = (SQLITE_ROW, select_on_row, db_idle)"
    by (simp_all add: stub)
  from r0 have c0: "exec_select t_engine Req_init db_idle = Some (Inr 0, Req_init, db_idle)"
    by (simp add: streams)
  from r1 have c1: "exec_select t_engine ?s1 db_idle
       = Some (Inr 0, \<lparr>m_stmt = None, m_sql = '' '', m_pos = 1, m_cols = 0\<rparr>, db_idle)"
    by (simp add: streams)
  from r2 have c2: "exec_select t_engine ?s2 db_idle
       = exec_select t_engine
           \<lparr>m_stmt = Some ?create,
            m_sql = ''create table t(a, b);select * from t;'', m_pos = 21, m_cols = 0\<rparr> ?db1"
    by (simp add: streams)
  have "exec_select t_engine
           \<lparr>m_stmt = Some ?create,
            m_sql = ''create table t(a, b);select * from t;'', m_pos = 21, m_cols = 0\<rparr> ?db1
       = Some (Inr 2,
           \<lparr>m_stmt = Some select_on_row,
            m_sql = ''create table t(a, b);select * from t;'', m_pos = 37, m_cols = 2\<rparr>, ?db1)"
    by code_simp
  with c2 have c2': "exec_select t_engine ?s2 db_idle
       = Some (Inr 2,
           \<lparr>m_stmt = Some select_on_row,
            m_sql = ''create table t(a, b);select * from t;'', m_pos = 37, m_cols = 2\<rparr>, ?db1)"
    by simp
  from r3 have c3: "exec_select t_engine ?s3 db_idle = Some (Inr 2, row_ready, db_idle)"
    by (simp add: streams cc row_ready_def)
  have c4: "exec_select t_engine
         (sql_append Req_init ''create table t(a, b); insert into t values(1, 2);'') db_idle
       = Some (Inr 0,
           \<lparr>m_stmt = None, m_sql = ''create table t(a, b); insert into t values(1, 2);'',
            m_pos = 49, m_cols = 0\<rparr>,
           \<lparr>in_txn = False,
            journal = [''create table t(a, b)'', ''insert into t values(1, 2)'']\<rparr>)"
    by code_simp
  from h0 c0 h1 c1 h2 c2 c2' h3 cc c3 c4 show ?thesis
    by (intro conjI)
qed

section \<open>A column count needs a handle\<close>

lemma exec_select_loop_handle:
  assumes "exec_select_loop eng s db = Some y"
  shows "m_cols s = 0 \<longrightarrow> m_cols (fst (snd y)) \<noteq> 0 \<longrightarrow> m_stmt (fst (snd y)) \<noteq> None"
  using assms
proof (induction eng s db y rule: exec_select_loop.raw_induct [rotated, consumes 1])
  case (1 loop eng s db y)
  obtain pr s1 db1 where p: "prepare eng s db = (pr, s1, db1)"
    by (cases "prepare eng s db") auto
  then have c1: "m_cols s1 = m_cols s"
    by (rule prepare_m_cols)
  show "m_cols s = 0 \<longrightarrow> m_cols (fst (snd y)) \<noteq> 0 \<longrightarrow> m_stmt (fst (snd y)) \<noteq> None"
  proof (intro impI)
    assume c: "m_cols s = 0" and nz: "m_cols (fst (snd y)) \<noteq> 0"
    show "m_stmt (fst (snd y)) \<noteq> None"
    proof (cases pr)
      case (Inl e)
      with 1(2) p c c1 nz show ?thesis by auto
    next
      case (Inr u)
      show ?thesis
      proof (cases "m_stmt s1")
        case None
        with 1(2) p c c1 nz Inr show ?thesis by auto
      next
        case (Some h)
        obtain r h' db2 where st: "sqlite3_step eng h db1 = (r, h', db2)"
          by (cases "sqlite3_step eng h db1") auto
        show ?thesis
        proof (cases "r = SQLITE_DONE")
          case True
          with 1(2) p Inr Some st have "loop eng (s1\<lparr>m_stmt := Some h'\<rparr>) db2 = Some y"
            by simp
          from 1(1) [OF this] c c1 nz show ?thesis by simp
        next
          case False
          with 1(2) p Inr Some st nz show ?thesis
            by (auto split: if_splits)
        qed
      qed
    qed
  qed
qed

lemma exec_select_handle:
  assumes "exec_select eng s db = Some (res, s', db')"
    and "m_cols s \<noteq> 0 \<longrightarrow> m_stmt s \<noteq> None"
  shows "m_cols s' \<noteq> 0 \<longrightarrow> m_stmt s' \<noteq> None"
proof (cases "m_cols s = 0")
  case True
  with assms(1) have "exec_select_loop eng s db = Some (res, s', db')"
    by (simp add: exec_select_def)
  from exec_select_loop_handle [OF this] True show ?thesis by simp
next
  case False
  with assms show ?thesis by (simp add: exec_select_def)
qed

lemma next_row_handle:
  assumes "next_row eng s db = (res, s', db')"
    and "m_cols s \<noteq> 0 \<longrightarrow> m_stmt s \<noteq> None"
  shows "m_cols s' \<noteq> 0 \<longrightarrow> m_stmt s' \<noteq> None"
  using assms
  by (auto simp: next_row_def split: option.splits if_splits prod.splits)

lemma next_row_loop_handle:
  assumes "next_row_loop eng s db = Some y"
  shows "(m_cols s \<noteq> 0 \<longrightarrow> m_stmt s \<noteq> None) \<longrightarrow>
         (m_cols (fst (snd y)) \<noteq> 0 \<longrightarrow> m_stmt (fst (snd y)) \<noteq> None)"
  using assms
proof (induction eng s db y rule: next_row_loop.raw_induct [rotated, consumes 1])
  case (1 loop eng s db y)
  obtain res s1 db1 where n: "next_row eng s db = (res, s1, db1)"
    by (cases "next_row eng s db") auto
  show "(m_cols s \<noteq> 0 \<longrightarrow> m_stmt s \<noteq> None) \<longrightarrow>
         (m_cols (fst (snd y)) \<noteq> 0 \<longrightarrow> m_stmt (fst (snd y)) \<noteq> None)"
  proof (intro impI)
    assume inv: "m_cols s \<noteq> 0 \<longrightarrow> m_stmt s \<noteq> None" and nz: "m_cols (fst (snd y)) \<noteq> 0"
    from next_row_handle [OF n inv] have inv1: "m_cols s1 \<noteq> 0 \<longrightarrow> m_stmt s1 \<noteq> None" .
    show "m_stmt (fst (snd y)) \<noteq> None"
    proof (cases res)
      case (Inl e)
      with 1(2) n inv1 nz show ?thesis by auto
    next
      case (Inr r)
      show ?thesis
      proof (cases "r = 0")
        case True
        with 1(2) n Inr inv1 nz show ?thesis by auto
      next
        case False
        with 1(2) n Inr have "loop eng s1 db1 = Some y" by simp
        from 1(1) [OF this] inv1 nz show ?thesis by simp
      qed
    qed
  qed
qed

lemma exec_loop_handle:
  assumes "exec_loop eng s db = Some y"
  shows "(m_cols s \<noteq> 0 \<longrightarrow> m_stmt s \<noteq> None) \<longrightarrow>
         (m_cols (fst (snd y)) \<noteq> 0 \<longrightarrow> m_stmt (fst (snd y)) \<noteq> None)"
  using assms
proof (induction eng s db y rule: exec_loop.raw_induct [rotated, consumes 1])
  case (1 loop eng s db y)
  show "(m_cols s \<noteq> 0 \<longrightarrow> m_stmt s \<noteq> None) \<longrightarrow>
         (m_cols (fst (snd y)) \<noteq> 0 \<longrightarrow> m_stmt (fst (snd y)) \<noteq> None)"
  proof (intro impI)
    assume inv: "m_cols s \<noteq> 0 \<longrightarrow> m_stmt s \<noteq> None" and nz: "m_cols (fst (snd y)) \<noteq> 0"
    from 1(2) obtain res s1 db1 where es: "exec_select eng s db = Some (res, s1, db1)"
      by (cases "exec_select eng s db") auto
    from exec_select_handle [OF es inv] have inv1: "m_cols s1 \<noteq> 0 \<longrightarrow> m_stmt s1 \<noteq> None" .
    show "m_stmt (fst (snd y)) \<noteq> None"
    proof (cases res)
      case (Inl e)
      with 1(2) es inv1 nz show ?thesis by auto
    next
      case (Inr r)
      show ?thesis
      proof (cases "r = 0")
        case True
        with 1(2) es Inr inv1 nz show ?thesis by auto
      next
        case False
        with 1(2) es Inr obtain res2 s2 db2
          where nl: "next_row_loop eng s1 db1 = Some (res2, s2, db2)"
          by (cases "next_row_loop eng s1 db1") auto
        from next_row_loop_handle [OF nl] inv1
        have inv2: "m_cols s2 \<noteq> 0 \<longrightarrow> m_stmt s2 \<noteq> None" by simp
        show ?thesis
        proof (cases res2)
          case (Inl e)
          with 1(2) es Inr False nl inv2 nz show ?thesis by auto
        next
          case (Inr u)
          with 1(2) es \<open>res = Inr r\<close> False nl have "loop eng s2 db2 = Some y" by simp
          from 1(1) [OF this] inv2 nz show ?thesis by simp
        qed
      qed
    qed
  qed
qed

lemma exec_handle:
  assumes "exec eng s db = Some (res, s', db')"
    and "m_cols s \<noteq> 0 \<longrightarrow> m_stmt s \<noteq> None"
  shows "m_cols s' \<noteq> 0 \<longrightarrow> m_stmt s' \<noteq> None"
proof (cases "m_cols s = 0")
  case True
  with assms(1) have "exec_loop eng s db = Some (res, s', db')"
    by (simp add: exec_def)
  from exec_loop_handle [OF this] assms(2) show ?thesis by simp
next
  case False
  with assms show ?thesis by (simp add: exec_def)
qed

text \<open>
  C5. In every state that a stream reaches from its construction through appends to its
  buffer and calls of \<open>clear\<close>, \<open>reset\<close>, \<open>exec_select\<close>, \<open>next_row\<close> and \<open>exec\<close>, whether
  they return or throw, a column count other than 0 comes with a compiled handle.
\<close>

theorem column_count_needs_handle:
  assumes "reachable eng s" and "m_cols s \<noteq> 0"
  shows "m_stmt s \<noteq> None"
proof -
  from assms(1) have "m_cols s \<noteq> 0 \<longrightarrow> m_stmt s \<noteq> None"
  proof (induction rule: reachable.induct)
    case r_init
    show ?case by (simp add: Req_init_def)
  next
    case (r_sql s t)
    then show ?case by (simp add: sql_append_def)
  next
    case (r_clear s db s' db')
    then show ?case by (auto simp: clear_def finalize_eq)
  next
    case (r_reset s db s' db')
    then show ?case by (auto simp: reset_def finalize_eq)
  next
    case (r_exec_select s db res s' db')
    from exec_select_handle [OF r_exec_select(2) r_exec_select(3)] show ?case .
  next
    case (r_next_row s db rn s' db')
    from next_row_handle [OF r_next_row(2) r_next_row(3)] show ?case .
  next
    case (r_exec s db rx s' db')
    from exec_handle [OF r_exec(2) r_exec(3)] show ?case .
  qed
  with assms(2) show ?thesis by simp
qed

theorem column_count_needs_handle_witness:
  "reachable t_engine row_ready \<and> m_cols row_ready \<noteq> 0 \<and> m_stmt row_ready \<noteq> None"
proof -
  have run: "exec_select t_engine (sql_append Req_init ''select * from t;'') db_idle
      = Some (Inr 2, row_ready, db_idle)"
    by code_simp
  have a: "reachable t_engine row_ready"
    by (rule r_exec_select [OF r_sql [OF r_init] run])
  have b: "m_cols row_ready \<noteq> 0"
    by (simp add: row_ready_def)
  from column_count_needs_handle [OF a b] a b show ?thesis by simp
qed

section \<open>Trans\<close>

lemma exec_private_eq:
  "exec_private eng txt db =
     (case exec eng \<lparr>m_stmt = None, m_sql = txt, m_pos = 0, m_cols = 0\<rparr> db of
        None \<Rightarrow> None
      | Some (res, s1, db1) \<Rightarrow> Some (res, Req_destroy eng s1 db1))"
  by (simp add: exec_private_def Req_init_def sql_append_def)




lemma Trans_apply_flag:
  assumes "Trans_apply eng x t db = Some (res, t1, db1)"
  shows "case res of
           Inl e \<Rightarrow> t1 = t
         | Inr u \<Rightarrow> if x = Begin then \<not> m_active t \<and> m_active t1 else m_active t \<and> \<not> m_active t1"
  using assms
  by (cases x)
    (auto simp: Trans_begin_def Trans_commit_def Trans_abort_def
      split: if_splits option.splits sum.splits prod.splits)

lemma Trans_run_balance:
  assumes "Trans_run eng xs (t, db, issued) = Some (t', db', issued')"
    and "length (filter (\<lambda>x. x = ''BEGIN;'') issued)
         = length (filter (\<lambda>x. x = ''COMMIT;'' \<or> x = ''ROLLBACK;'') issued)
           + (if m_active t then 1 else 0)"
  shows "length (filter (\<lambda>x. x = ''BEGIN;'') issued')
         = length (filter (\<lambda>x. x = ''COMMIT;'' \<or> x = ''ROLLBACK;'') issued')
           + (if m_active t' then 1 else 0)"
  using assms
proof (induction xs arbitrary: t db issued)
  case Nil
  then show ?case by simp
next
  case (Cons x xs)
  from Cons.prems(1) obtain res t1 db1 where ap: "Trans_apply eng x t db = Some (res, t1, db1)"
    by (cases "Trans_apply eng x t db") auto
  note fl = Trans_apply_flag [OF ap]
  show ?case
  proof (cases res)
    case (Inl e)
    with Cons.prems(1) ap have run: "Trans_run eng xs (t1, db1, issued) = Some (t', db', issued')"
      by simp
    from fl Inl have "t1 = t" by simp
    with Cons.IH [OF run] Cons.prems(2) show ?thesis by simp
  next
    case (Inr u)
    with Cons.prems(1) ap
    have run: "Trans_run eng xs (t1, db1, issued @ [statement_of x]) = Some (t', db', issued')"
      by simp
    from fl Inr Cons.prems(2)
    have "length (filter (\<lambda>x. x = ''BEGIN;'') (issued @ [statement_of x]))
         = length (filter (\<lambda>x. x = ''COMMIT;'' \<or> x = ''ROLLBACK;'') (issued @ [statement_of x]))
           + (if m_active t1 then 1 else 0)"
      by (cases x) (auto split: if_splits)
    from Cons.IH [OF run this] show ?thesis .
  qed
qed

text \<open>
  C9, as the code has it. \<open>begin\<close> fails with a usage error on an active \<open>Trans\<close>, and
  \<open>commit\<close> and \<open>abort\<close> fail with a usage error on an inactive one; the engine is not
  called then. Otherwise the operation runs its statement (\<open>BEGIN;\<close>, \<open>COMMIT;\<close>,
  \<open>ROLLBACK;\<close>) through a stream of its own: when that run returns, \<open>begin\<close> leaves the
  \<open>Trans\<close> active and \<open>commit\<close> and \<open>abort\<close> leave it inactive; when that run fails, the
  error goes to the caller and the flag is as before. After any sequence of the three
  operations on a new \<open>Trans\<close>, the flag is set exactly when the statements it has run
  without error hold a \<open>BEGIN;\<close> without a matching \<open>COMMIT;\<close> or \<open>ROLLBACK;\<close>.
\<close>

theorem Trans_operations:
  "(m_active t \<longrightarrow>
      Trans_begin eng t db
        = Some (Inl (UsageError ''begin() transaction when already active''), t, db))
   \<and> (\<not> m_active t \<longrightarrow>
      Trans_commit eng t db
        = Some (Inl (UsageError ''commit() transaction when not active''), t, db)
      \<and> Trans_abort eng t db
        = Some (Inl (UsageError ''abort() transaction when not active''), t, db))
   \<and> (\<not> m_active t
        \<and> exec eng \<lparr>m_stmt = None, m_sql = ''BEGIN;'', m_pos = 0, m_cols = 0\<rparr> db
            = Some (Inr (), s1, db1) \<longrightarrow>
      Trans_begin eng t db = Some (Inr (), t\<lparr>m_active := True\<rparr>, Req_destroy eng s1 db1))
   \<and> (\<not> m_active t
        \<and> exec eng \<lparr>m_stmt = None, m_sql = ''BEGIN;'', m_pos = 0, m_cols = 0\<rparr> db
            = Some (Inl e, s1, db1) \<longrightarrow>
      Trans_begin eng t db = Some (Inl e, t, Req_destroy eng s1 db1))
   \<and> (m_active t
        \<and> exec eng \<lparr>m_stmt = None, m_sql = ''COMMIT;'', m_pos = 0, m_cols = 0\<rparr> db
            = Some (Inr (), s1, db1) \<longrightarrow>
      Trans_commit eng t db = Some (Inr (), t\<lparr>m_active := False\<rparr>, Req_destroy eng s1 db1))
   \<and> (m_active t
        \<and> exec eng \<lparr>m_stmt = None, m_sql = ''COMMIT;'', m_pos = 0, m_cols = 0\<rparr> db
            = Some (Inl e, s1, db1) \<longrightarrow>
      Trans_commit eng t db = Some (Inl e, t, Req_destroy eng s1 db1))
   \<and> (m_active t
        \<and> exec eng \<lparr>m_stmt = None, m_sql = ''ROLLBACK;'', m_pos = 0, m_cols = 0\<rparr> db
            = Some (Inr (), s1, db1) \<longrightarrow>
      Trans_abort eng t db = Some (Inr (), t\<lparr>m_active := False\<rparr>, Req_destroy eng s1 db1))
   \<and> (m_active t
        \<and> exec eng \<lparr>m_stmt = None, m_sql = ''ROLLBACK;'', m_pos = 0, m_cols = 0\<rparr> db
            = Some (Inl e, s1, db1) \<longrightarrow>
      Trans_abort eng t db = Some (Inl e, t, Req_destroy eng s1 db1))
   \<and> (\<forall>xs t' db' issued.
        Trans_run eng xs (Trans_init, db, []) = Some (t', db', issued) \<longrightarrow>
        (m_active t' \<longleftrightarrow> unmatched_begin issued))"
proof -
  have ops:
    "m_active t \<longrightarrow>
      Trans_begin eng t db
        = Some (Inl (UsageError ''begin() transaction when already active''), t, db)"
    "\<not> m_active t \<longrightarrow>
      Trans_commit eng t db
        = Some (Inl (UsageError ''commit() transaction when not active''), t, db)
      \<and> Trans_abort eng t db
        = Some (Inl (UsageError ''abort() transaction when not active''), t, db)"
    "\<not> m_active t
        \<and> exec eng \<lparr>m_stmt = None, m_sql = ''BEGIN;'', m_pos = 0, m_cols = 0\<rparr> db
            = Some (Inr (), s1, db1) \<longrightarrow>
      Trans_begin eng t db = Some (Inr (), t\<lparr>m_active := True\<rparr>, Req_destroy eng s1 db1)"
    "\<not> m_active t
        \<and> exec eng \<lparr>m_stmt = None, m_sql = ''BEGIN;'', m_pos = 0, m_cols = 0\<rparr> db
            = Some (Inl e, s1, db1) \<longrightarrow>
      Trans_begin eng t db = Some (Inl e, t, Req_destroy eng s1 db1)"
    "m_active t
        \<and> exec eng \<lparr>m_stmt = None, m_sql = ''COMMIT;'', m_pos = 0, m_cols = 0\<rparr> db
            = Some (Inr (), s1, db1) \<longrightarrow>
      Trans_commit eng t db = Some (Inr (), t\<lparr>m_active := False\<rparr>, Req_destroy eng s1 db1)"
    "m_active t
        \<and> exec eng \<lparr>m_stmt = None, m_sql = ''COMMIT;'', m_pos = 0, m_cols = 0\<rparr> db
            = Some (Inl e, s1, db1) \<longrightarrow>
      Trans_commit eng t db = Some (Inl e, t, Req_destroy eng s1 db1)"
    "m_active t
        \<and> exec eng \<lparr>m_stmt = None, m_sql = ''ROLLBACK;'', m_pos = 0, m_cols = 0\<rparr> db
            = Some (Inr (), s1, db1) \<longrightarrow>
      Trans_abort eng t db = Some (Inr (), t\<lparr>m_active := False\<rparr>, Req_destroy eng s1 db1)"
    "m_active t
        \<and> exec eng \<lparr>m_stmt = None, m_sql = ''ROLLBACK;'', m_pos = 0, m_cols = 0\<rparr> db
            = Some (Inl e, s1, db1) \<longrightarrow>
      Trans_abort eng t db = Some (Inl e, t, Req_destroy eng s1 db1)"
    by (simp_all add: Trans_begin_def Trans_commit_def Trans_abort_def exec_private_eq)
  have hist: "m_active t' \<longleftrightarrow> unmatched_begin issued"
    if run: "Trans_run eng xs (Trans_init, db, []) = Some (t', db', issued)"
    for xs t' db' issued
  proof -
    from Trans_run_balance [OF run]
    have "length (filter (\<lambda>x. x = ''BEGIN;'') issued)
         = length (filter (\<lambda>x. x = ''COMMIT;'' \<or> x = ''ROLLBACK;'') issued)
           + (if m_active t' then 1 else 0)"
      by (simp add: Trans_init_def)
    then show ?thesis
      by (simp add: unmatched_begin_def split: if_splits)
  qed
  then have hist_all:
    "\<forall>xs t' db' issued.
        Trans_run eng xs (Trans_init, db, []) = Some (t', db', issued) \<longrightarrow>
        (m_active t' \<longleftrightarrow> unmatched_begin issued)"
    by blast
  from ops hist_all show ?thesis
    by (intro conjI)
qed

theorem Trans_operations_witness:
  "m_active \<lparr>m_active = True\<rparr>
   \<and> Trans_begin t_engine \<lparr>m_active = True\<rparr> db_in_txn
       = Some (Inl (UsageError ''begin() transaction when already active''),
               \<lparr>m_active = True\<rparr>, db_in_txn)
   \<and> \<not> m_active Trans_init
   \<and> Trans_commit t_engine Trans_init db_idle
       = Some (Inl (UsageError ''commit() transaction when not active''), Trans_init, db_idle)
   \<and> Trans_abort t_engine Trans_init db_idle
       = Some (Inl (UsageError ''abort() transaction when not active''), Trans_init, db_idle)
   \<and> exec t_engine \<lparr>m_stmt = None, m_sql = ''BEGIN;'', m_pos = 0, m_cols = 0\<rparr> db_idle
       = Some (Inr (), \<lparr>m_stmt = None, m_sql = ''BEGIN;'', m_pos = 6, m_cols = 0\<rparr>, db_in_txn)
   \<and> Trans_begin t_engine Trans_init db_idle = Some (Inr (), \<lparr>m_active = True\<rparr>, db_in_txn)
   \<and> exec t_engine \<lparr>m_stmt = None, m_sql = ''BEGIN;'', m_pos = 0, m_cols = 0\<rparr> db_in_txn
       = Some (Inl (EngineError (SQLITE_FAIL 1)),
               \<lparr>m_stmt = Some \<lparr>st_text = ''BEGIN'', st_rows = [], st_cur = []\<rparr>,
                m_sql = ''BEGIN;'', m_pos = 6, m_cols = 0\<rparr>,
               db_in_txn)
   \<and> Trans_begin t_engine Trans_init db_in_txn
       = Some (Inl (EngineError (SQLITE_FAIL 1)), \<lparr>m_active = False\<rparr>, db_in_txn)
   \<and> exec t_engine \<lparr>m_stmt = None, m_sql = ''COMMIT;'', m_pos = 0, m_cols = 0\<rparr> db_in_txn
       = Some (Inr (), \<lparr>m_stmt = None, m_sql = ''COMMIT;'', m_pos = 7, m_cols = 0\<rparr>,
               \<lparr>in_txn = False, journal = [''BEGIN'', ''COMMIT'']\<rparr>)
   \<and> Trans_commit t_engine \<lparr>m_active = True\<rparr> db_in_txn
       = Some (Inr (), \<lparr>m_active = False\<rparr>,
               \<lparr>in_txn = False, journal = [''BEGIN'', ''COMMIT'']\<rparr>)
   \<and> exec t_engine \<lparr>m_stmt = None, m_sql = ''COMMIT;'', m_pos = 0, m_cols = 0\<rparr> db_idle
       = Some (Inl (EngineError (SQLITE_FAIL 1)),
               \<lparr>m_stmt = Some \<lparr>st_text = ''COMMIT'', st_rows = [], st_cur = []\<rparr>,
                m_sql = ''COMMIT;'', m_pos = 7, m_cols = 0\<rparr>,
               db_idle)
   \<and> Trans_commit t_engine \<lparr>m_active = True\<rparr> db_idle
       = Some (Inl (EngineError (SQLITE_FAIL 1)), \<lparr>m_active = True\<rparr>, db_idle)
   \<and> exec t_engine \<lparr>m_stmt = None, m_sql = ''ROLLBACK;'', m_pos = 0, m_cols = 0\<rparr> db_in_txn
       = Some (Inr (), \<lparr>m_stmt = None, m_sql = ''ROLLBACK;'', m_pos = 9, m_cols = 0\<rparr>,
               \<lparr>in_txn = False, journal = [''BEGIN'', ''ROLLBACK'']\<rparr>)
   \<and> Trans_abort t_engine \<lparr>m_active = True\<rparr> db_in_txn
       = Some (Inr (), \<lparr>m_active = False\<rparr>,
               \<lparr>in_txn = False, journal = [''BEGIN'', ''ROLLBACK'']\<rparr>)
   \<and> exec t_engine \<lparr>m_stmt = None, m_sql = ''ROLLBACK;'', m_pos = 0, m_cols = 0\<rparr> db_idle
       = Some (Inl (EngineError (SQLITE_FAIL 1)),
               \<lparr>m_stmt = Some \<lparr>st_text = ''ROLLBACK'', st_rows = [], st_cur = []\<rparr>,
                m_sql = ''ROLLBACK;'', m_pos = 9, m_cols = 0\<rparr>,
               db_idle)
   \<and> Trans_abort t_engine \<lparr>m_active = True\<rparr> db_idle
       = Some (Inl (EngineError (SQLITE_FAIL 1)), \<lparr>m_active = True\<rparr>, db_idle)
   \<and> Trans_run t_engine [Begin, Begin, Commit, Abort, Begin] (Trans_init, db_idle, [])
       = Some (\<lparr>m_active = True\<rparr>,
               \<lparr>in_txn = True, journal = [''BEGIN'', ''COMMIT'', ''BEGIN'']\<rparr>,
               [''BEGIN;'', ''COMMIT;'', ''BEGIN;''])
   \<and> (m_active \<lparr>m_active = True\<rparr> \<longleftrightarrow> unmatched_begin [''BEGIN;'', ''COMMIT;'', ''BEGIN;''])
   \<and> unmatched_begin [''BEGIN;'', ''COMMIT;'', ''BEGIN;'']"
proof -
  let ?on = "\<lparr>m_active = True\<rparr>"
  let ?off = "\<lparr>m_active = False\<rparr>"
  let ?req = "\<lambda>txt. \<lparr>m_stmt = None, m_sql = txt, m_pos = 0, m_cols = 0\<rparr> :: stub_stmt req"
  let ?ok = "\<lambda>txt n. \<lparr>m_stmt = None, m_sql = txt, m_pos = n, m_cols = 0\<rparr> :: stub_stmt req"
  let ?bad = "\<lambda>st txt n. \<lparr>m_stmt = Some \<lparr>st_text = st, st_rows = [], st_cur = []\<rparr>,
      m_sql = txt, m_pos = n, m_cols = 0\<rparr>"
  let ?db_c = "\<lparr>in_txn = False, journal = [''BEGIN'', ''COMMIT'']\<rparr>"
  let ?db_r = "\<lparr>in_txn = False, journal = [''BEGIN'', ''ROLLBACK'']\<rparr>"
  let ?err = "EngineError (SQLITE_FAIL 1)"
  have on: "m_active ?on" and off: "\<not> m_active Trans_init"
    by (simp_all add: Trans_init_def)
  have off_eq: "Trans_init = ?off"
    by (simp add: Trans_init_def)
  have e_b_ok: "exec t_engine (?req ''BEGIN;'') db_idle = Some (Inr (), ?ok ''BEGIN;'' 6, db_in_txn)"
    by code_simp
  have e_b_bad: "exec t_engine (?req ''BEGIN;'') db_in_txn
      = Some (Inl ?err, ?bad ''BEGIN'' ''BEGIN;'' 6, db_in_txn)"
    by code_simp
  have e_c_ok: "exec t_engine (?req ''COMMIT;'') db_in_txn = Some (Inr (), ?ok ''COMMIT;'' 7, ?db_c)"
    by code_simp
  have e_c_bad: "exec t_engine (?req ''COMMIT;'') db_idle
      = Some (Inl ?err, ?bad ''COMMIT'' ''COMMIT;'' 7, db_idle)"
    by code_simp
  have e_r_ok: "exec t_engine (?req ''ROLLBACK;'') db_in_txn
      = Some (Inr (), ?ok ''ROLLBACK;'' 9, ?db_r)"
    by code_simp
  have e_r_bad: "exec t_engine (?req ''ROLLBACK;'') db_idle
      = Some (Inl ?err, ?bad ''ROLLBACK'' ''ROLLBACK;'' 9, db_idle)"
    by code_simp
  have run: "Trans_run t_engine [Begin, Begin, Commit, Abort, Begin] (Trans_init, db_idle, [])
       = Some (?on, \<lparr>in_txn = True, journal = [''BEGIN'', ''COMMIT'', ''BEGIN'']\<rparr>,
               [''BEGIN;'', ''COMMIT;'', ''BEGIN;''])"
    by code_simp
  have gone: "\<And>txt n db. Req_destroy t_engine (?ok txt n) db = db"
    "\<And>st txt n db. Req_destroy t_engine (?bad st txt n) db = db"
    by (simp_all add: Req_destroy_eq t_engine_def stub_engine_def)
  note w1 = Trans_operations [of ?on t_engine db_in_txn, THEN conjunct1, rule_format, OF on]
  note w2 = Trans_operations [of Trans_init t_engine db_idle,
      THEN conjunct2, THEN conjunct1, rule_format, OF off]
  note w3 = Trans_operations [of Trans_init t_engine db_idle "?ok ''BEGIN;'' 6" db_in_txn,
      THEN conjunct2, THEN conjunct2, THEN conjunct1, rule_format, OF conjI [OF off e_b_ok]]
  note w4 = Trans_operations [of Trans_init t_engine db_in_txn "?bad ''BEGIN'' ''BEGIN;'' 6"
        db_in_txn ?err,
      THEN conjunct2, THEN conjunct2, THEN conjunct2, THEN conjunct1, rule_format,
      OF conjI [OF off e_b_bad]]
  note w5 = Trans_operations [of ?on t_engine db_in_txn "?ok ''COMMIT;'' 7" ?db_c,
      THEN conjunct2, THEN conjunct2, THEN conjunct2, THEN conjunct2, THEN conjunct1,
      rule_format, OF conjI [OF on e_c_ok]]
  note w6 = Trans_operations [of ?on t_engine db_idle "?bad ''COMMIT'' ''COMMIT;'' 7" db_idle ?err,
      THEN conjunct2, THEN conjunct2, THEN conjunct2, THEN conjunct2, THEN conjunct2,
      THEN conjunct1, rule_format, OF conjI [OF on e_c_bad]]
  note w7 = Trans_operations [of ?on t_engine db_in_txn "?ok ''ROLLBACK;'' 9" ?db_r,
      THEN conjunct2, THEN conjunct2, THEN conjunct2, THEN conjunct2, THEN conjunct2,
      THEN conjunct2, THEN conjunct1, rule_format, OF conjI [OF on e_r_ok]]
  note w8 = Trans_operations [of ?on t_engine db_idle "?bad ''ROLLBACK'' ''ROLLBACK;'' 9"
        db_idle ?err,
      THEN conjunct2, THEN conjunct2, THEN conjunct2, THEN conjunct2, THEN conjunct2,
      THEN conjunct2, THEN conjunct2, THEN conjunct1, rule_format, OF conjI [OF on e_r_bad]]
  note w9 = Trans_operations [of Trans_init t_engine db_idle,
      THEN conjunct2, THEN conjunct2, THEN conjunct2, THEN conjunct2, THEN conjunct2,
      THEN conjunct2, THEN conjunct2, THEN conjunct2, rule_format, OF run]
  from w2 have w2a: "Trans_commit t_engine Trans_init db_idle
       = Some (Inl (UsageError ''commit() transaction when not active''), Trans_init, db_idle)"
    and w2b: "Trans_abort t_engine Trans_init db_idle
       = Some (Inl (UsageError ''abort() transaction when not active''), Trans_init, db_idle)"
    by simp_all
  from w3 have c3: "Trans_begin t_engine Trans_init db_idle = Some (Inr (), ?on, db_in_txn)"
    by (simp add: gone off_eq)
  from w4 have c4: "Trans_begin t_engine Trans_init db_in_txn = Some (Inl ?err, ?off, db_in_txn)"
    by (simp add: gone off_eq)
  from w5 have c5: "Trans_commit t_engine ?on db_in_txn = Some (Inr (), ?off, ?db_c)"
    by (simp add: gone)
  from w6 have c6: "Trans_commit t_engine ?on db_idle = Some (Inl ?err, ?on, db_idle)"
    by (simp add: gone)
  from w7 have c7: "Trans_abort t_engine ?on db_in_txn = Some (Inr (), ?off, ?db_r)"
    by (simp add: gone)
  from w8 have c8: "Trans_abort t_engine ?on db_idle = Some (Inl ?err, ?on, db_idle)"
    by (simp add: gone)
  from w9 on have c9: "unmatched_begin [''BEGIN;'', ''COMMIT;'', ''BEGIN;'']"
    by simp
  from on w1 off w2a w2b e_b_ok c3 e_b_bad c4 e_c_ok c5 e_c_bad c6 e_r_ok c7 e_r_bad c8 run w9 c9
  show ?thesis
    by (intro conjI)
qed

text \<open>
  C9 as stated fails where the engine refuses the statement. After one \<open>Trans\<close> has begun
  a transaction on a connection, \<open>begin\<close> on a second, inactive \<open>Trans\<close> of the same
  connection issues \<open>BEGIN\<close>, is refused by the engine and fails with the engine's error,
  not a usage error; the second \<open>Trans\<close> is not moved to active.
\<close>

theorem Trans_begin_counterexample:
  "Trans_begin t_engine Trans_init db_idle = Some (Inr (), \<lparr>m_active = True\<rparr>, db_in_txn)
   \<and> \<not> m_active Trans_init
   \<and> Trans_begin t_engine Trans_init db_in_txn
       = Some (Inl (EngineError (SQLITE_FAIL 1)), \<lparr>m_active = False\<rparr>, db_in_txn)"
  by code_simp

end
